theory Spec2Isabelle
  imports Main "HOL-Library.AList" "HOL-Library.Sublist" "HOL-Library.Word"
    "HOL-Library.Signed_Division"
begin

unbundle bit_operations_syntax

section \<open>The generator: \<^verbatim>\<open>cmd/generate.go\<close>\<close>

subsection \<open>Go maps in a store\<close>

text \<open>
  A Go \<^verbatim>\<open>map[string]string\<close> is a reference: two variables may denote the same map, and
  a store through one is seen through the other. The store below keeps the entries of
  every allocated map under its address; a map value is an address, or \<open>None\<close> for the
  \<^verbatim>\<open>nil\<close> map. The entries are kept as a list, whose order stands for the (unspecified)
  order in which \<^verbatim>\<open>range\<close> visits them; a key is looked up with \<open>map_of\<close>.
\<close>

type_synonym gomap = "(string \<times> string) list"
type_synonym addr = nat
type_synonym mapref = "addr option"

record heap =
  cells :: "addr \<Rightarrow> gomap"
  next_free :: addr

text \<open>The entries a \<^verbatim>\<open>range\<close> loop visits; ranging over the nil map visits nothing.\<close>

definition entries :: "heap \<Rightarrow> mapref \<Rightarrow> gomap" where
  "entries h r = (case r of None \<Rightarrow> [] | Some a \<Rightarrow> cells h a)"

text \<open>\<^verbatim>\<open>v, found := m[k]\<close>; reading the nil map finds nothing.\<close>

definition lookup :: "heap \<Rightarrow> mapref \<Rightarrow> string \<Rightarrow> string option" where
  "lookup h r k = map_of (entries h r) k"

definition keys :: "heap \<Rightarrow> mapref \<Rightarrow> string set" where
  "keys h r = fst ` set (entries h r)"

text \<open>\<^verbatim>\<open>make(map[string]string)\<close>: a fresh, empty map.\<close>

definition make_map :: "heap \<Rightarrow> addr \<times> heap" where
  "make_map h =
     (next_free h, h\<lparr>cells := (cells h)(next_free h := []), next_free := Suc (next_free h)\<rparr>)"

subsection \<open>\<^verbatim>\<open>combineArgs\<close>\<close>

text \<open>
  \<^verbatim>\<open>
  func combineArgs(machineArgs map[string]string, baseArgs map[string]string) map[string]string {
      if machineArgs == nil {
          return baseArgs
      }
      for arg, val := range baseArgs {
          if _, found := machineArgs[arg]; !found {
              machineArgs[arg] = val
          }
      }
      return machineArgs
  }
  \<close>
  The loop runs over the entries of \<^verbatim>\<open>baseArgs\<close> and stores into the map that
  \<^verbatim>\<open>machineArgs\<close> refers to; the function returns a reference, never a copy.
\<close>

fun combine_loop :: "gomap \<Rightarrow> gomap \<Rightarrow> gomap" where
  "combine_loop [] m = m"
| "combine_loop ((arg, val) # rest) m =
     combine_loop rest (if map_of m arg = None then AList.update arg val m else m)"

definition combineArgs :: "heap \<Rightarrow> mapref \<Rightarrow> mapref \<Rightarrow> mapref \<times> heap" where
  "combineArgs h machineArgs baseArgs =
     (case machineArgs of
        None \<Rightarrow> (baseArgs, h)
      | Some a \<Rightarrow>
          (Some a, h\<lparr>cells := (cells h)(a := combine_loop (entries h baseArgs) (cells h a))\<rparr>))"

subsection \<open>Cluster names\<close>

text \<open>
  \<^verbatim>\<open>
  func hashStrings(vals ...string) uint32 {
      hasher := crc32.NewIEEE()
      for _, v := range vals {
          _, _ = hasher.Write([]byte(v))
      }
      return hasher.Sum32()
  }
  \<close>
  The IEEE CRC-32 of the standard library, bit by bit (reflected polynomial
  \<open>0xEDB88320\<close>): a \<^verbatim>\<open>Write\<close> complements the running sum, folds the bytes in and
  complements again; the sum starts at zero.
\<close>

definition crc32_bit :: "32 word \<Rightarrow> 32 word" where
  "crc32_bit c = (if bit c 0 then drop_bit 1 c XOR 0xEDB88320 else drop_bit 1 c)"

definition crc32_byte :: "32 word \<Rightarrow> char \<Rightarrow> 32 word" where
  "crc32_byte c b = (crc32_bit ^^ 8) (c XOR of_char b)"

definition hasher_Write :: "32 word \<Rightarrow> string \<Rightarrow> 32 word" where
  "hasher_Write crc p = NOT (foldl crc32_byte (NOT crc) p)"

definition hashStrings :: "string list \<Rightarrow> 32 word" where
  "hashStrings vals = foldl hasher_Write 0 vals"

text \<open>
  The verb \<^verbatim>\<open>%d\<close> of \<^verbatim>\<open>fmt\<close>: decimal digits, with a minus sign below zero.
  The digits of a number are computed on \<open>int\<close>, the most significant first.
\<close>

definition digit_char :: "int \<Rightarrow> char" where
  "digit_char i = ''0123456789'' ! nat i"

function decimal :: "int \<Rightarrow> string" where
  "decimal i =
     (if i < 10 then [digit_char i] else decimal (i div 10) @ [digit_char (i mod 10)])"
  by auto
termination
  by (relation "measure nat") auto

declare decimal.simps [simp del]

definition fmt_d :: "int \<Rightarrow> string" where
  "fmt_d i = (if i < 0 then CHR ''-'' # decimal (- i) else decimal i)"

text \<open>
  \<^verbatim>\<open>validClusterName := regexp.MustCompile(`[\.|\_]`)\<close>: a character class of three
  characters, the dot, the vertical bar and the underscore. \<^verbatim>\<open>ReplaceAllString\<close> puts
  the replacement in the place of every match, here of every single character of the
  class, and copies the rest.
\<close>

definition validClusterName :: "char \<Rightarrow> bool" where
  "validClusterName c \<longleftrightarrow> c = CHR ''.'' \<or> c = CHR ''|'' \<or> c = CHR ''_''"

definition ReplaceAllString :: "(char \<Rightarrow> bool) \<Rightarrow> string \<Rightarrow> string \<Rightarrow> string" where
  "ReplaceAllString cls src repl = concat (map (\<lambda>c. if cls c then repl else [c]) src)"

text \<open>
  \<^verbatim>\<open>
  clusterName := fmt.Sprintf("cldrprt%d-%s-%d",
      (1+time.Now().Year())%1000, machineType,
      hashStrings(cloud.Cloud, cloud.Group, reportVersion))
  validClusterName := regexp.MustCompile(`[\.|\_]`)
  clusterName = validClusterName.ReplaceAllString(clusterName, "-")
  \<close>
  The year of the clock and the constant \<^verbatim>\<open>reportVersion\<close> (declared in another file
  of the package) are parameters. Go's \<^verbatim>\<open>%\<close> truncates towards zero, which is \<open>smod\<close>.
\<close>

definition clusterName :: "int \<Rightarrow> string \<Rightarrow> string \<Rightarrow> string \<Rightarrow> string \<Rightarrow> string" where
  "clusterName year machineType cloud grp reportVersion =
     ReplaceAllString validClusterName
       (''cldrprt'' @ fmt_d ((1 + year) smod 1000) @ ''-'' @ machineType @ ''-''
          @ decimal (uint (hashStrings [cloud, grp, reportVersion])))
       ''-''"

text \<open>\<^verbatim>\<open>strings.Replace(m, ".", "-", -1)\<close>\<close>

definition FormatMachineType :: "string \<Rightarrow> string" where
  "FormatMachineType m = map (\<lambda>c. if c = CHR ''.'' then CHR ''-'' else c) m"

text \<open>The characters the specification allows in a cluster identity.\<close>

definition is_letter :: "char \<Rightarrow> bool" where
  "is_letter c \<longleftrightarrow>
     (65 \<le> (of_char c :: nat) \<and> (of_char c :: nat) \<le> 90) \<or>
     (97 \<le> (of_char c :: nat) \<and> (of_char c :: nat) \<le> 122)"

definition is_digit :: "char \<Rightarrow> bool" where
  "is_digit c \<longleftrightarrow> 48 \<le> (of_char c :: nat) \<and> (of_char c :: nat) \<le> 57"

definition identity_char :: "char \<Rightarrow> bool" where
  "identity_char c \<longleftrightarrow> is_letter c \<or> is_digit c \<or> c = CHR ''-''"

subsection \<open>Rendering the deployment arguments\<close>

text \<open>
  The verb \<^verbatim>\<open>%q\<close> on a string is \<^verbatim>\<open>strconv.Quote\<close>. It reads the value rune by rune.
  \<^verbatim>\<open>utf8.DecodeRuneInString\<close> gives the rune at the head of the bytes and the number of
  bytes of its encoding; a byte that starts no well-formed encoding (a stray
  continuation byte, an overlong or truncated form, a surrogate, a value beyond
  \<open>0x10FFFF\<close>) is reported as an error of width one, here \<open>None\<close>.
\<close>

definition is_cont :: "int \<Rightarrow> bool" where
  "is_cont b \<longleftrightarrow> 0x80 \<le> b \<and> b \<le> 0xBF"

fun decode_rune :: "int list \<Rightarrow> (int \<times> nat) option" where
  "decode_rune [] = None"
| "decode_rune (b0 # rest) =
     (if b0 < 0x80 then Some (b0, 1)
      else if 0xC2 \<le> b0 \<and> b0 \<le> 0xDF then
        (case rest of
           b1 # _ \<Rightarrow> if is_cont b1 then Some ((b0 - 0xC0) * 64 + (b1 - 0x80), 2) else None
         | _ \<Rightarrow> None)
      else if 0xE0 \<le> b0 \<and> b0 \<le> 0xEF then
        (case rest of
           b1 # b2 # _ \<Rightarrow>
             if (if b0 = 0xE0 then 0xA0 else 0x80) \<le> b1 \<and>
                b1 \<le> (if b0 = 0xED then 0x9F else 0xBF) \<and> is_cont b2
             then Some ((b0 - 0xE0) * 4096 + (b1 - 0x80) * 64 + (b2 - 0x80), 3) else None
         | _ \<Rightarrow> None)
      else if 0xF0 \<le> b0 \<and> b0 \<le> 0xF4 then
        (case rest of
           b1 # b2 # b3 # _ \<Rightarrow>
             if (if b0 = 0xF0 then 0x90 else 0x80) \<le> b1 \<and>
                b1 \<le> (if b0 = 0xF4 then 0x8F else 0xBF) \<and> is_cont b2 \<and> is_cont b3
             then Some ((b0 - 0xF0) * 262144 + (b1 - 0x80) * 4096 + (b2 - 0x80) * 64
                          + (b3 - 0x80), 4)
             else None
         | _ \<Rightarrow> None)
      else None)"

text \<open>
  \<^verbatim>\<open>strconv.IsPrint\<close>: up to \<open>0xFF\<close> the function decides by itself (the printable ASCII
  characters, and the Latin-1 characters from \<open>0xA1\<close> on except the soft hyphen
  \<open>0xAD\<close>); beyond, it consults the Unicode tables of the release, which are the
  parameter \<open>tables\<close>.
\<close>

definition IsPrint :: "(int \<Rightarrow> bool) \<Rightarrow> int \<Rightarrow> bool" where
  "IsPrint tables r =
     (if r \<le> 0xFF then (0x20 \<le> r \<and> r < 0x7F) \<or> (0xA1 \<le> r \<and> r \<noteq> 0xAD) else tables r)"

definition hex_digit :: "int \<Rightarrow> char" where
  "hex_digit n = ''0123456789abcdef'' ! nat n"

text \<open>
  \<^verbatim>\<open>appendEscapedRune\<close> for the double quote as the quote character: the double quote
  and the backslash get a backslash in front; a printable rune is copied with the
  bytes of its encoding; the other runes become \<^verbatim>\<open>\a \b \f \n \r \t \v\<close>, \<^verbatim>\<open>\xNN\<close> for
  the remaining control characters, \<^verbatim>\<open>\uNNNN\<close> below \<open>0x10000\<close> and \<^verbatim>\<open>\UNNNNNNNN\<close> above.
\<close>

definition escaped_rune :: "(int \<Rightarrow> bool) \<Rightarrow> int \<Rightarrow> string \<Rightarrow> string" where
  "escaped_rune tables r bytes =
     (if r = 0x22 then [CHR 0x5C, CHR 0x22]
      else if r = 0x5C then [CHR 0x5C, CHR 0x5C]
      else if IsPrint tables r then bytes
      else if r = 7 then [CHR 0x5C, CHR ''a'']
      else if r = 8 then [CHR 0x5C, CHR ''b'']
      else if r = 12 then [CHR 0x5C, CHR ''f'']
      else if r = 10 then [CHR 0x5C, CHR ''n'']
      else if r = 13 then [CHR 0x5C, CHR ''r'']
      else if r = 9 then [CHR 0x5C, CHR ''t'']
      else if r = 11 then [CHR 0x5C, CHR ''v'']
      else if r < 0x20 \<or> r = 0x7F then
        [CHR 0x5C, CHR ''x'', hex_digit (r div 16), hex_digit (r mod 16)]
      else if r < 0x10000 then
        [CHR 0x5C, CHR ''u'', hex_digit (r div 4096 mod 16), hex_digit (r div 256 mod 16),
         hex_digit (r div 16 mod 16), hex_digit (r mod 16)]
      else
        [CHR 0x5C, CHR ''U'', hex_digit (r div 268435456 mod 16), hex_digit (r div 16777216 mod 16),
         hex_digit (r div 1048576 mod 16), hex_digit (r div 65536 mod 16),
         hex_digit (r div 4096 mod 16), hex_digit (r div 256 mod 16),
         hex_digit (r div 16 mod 16), hex_digit (r mod 16)])"

text \<open>
  The loop of \<^verbatim>\<open>appendQuotedWith\<close> between the two quotes: a byte that starts no rune is
  written as \<^verbatim>\<open>\xNN\<close>, a rune is escaped as above, and the loop goes on behind it.
\<close>

function quote_body :: "(int \<Rightarrow> bool) \<Rightarrow> string \<Rightarrow> string" where
  "quote_body tables [] = []"
| "quote_body tables (c # cs) =
     (case decode_rune (map of_char (c # cs)) of
        None \<Rightarrow>
          [CHR 0x5C, CHR ''x'', hex_digit (of_char c div 16), hex_digit (of_char c mod 16)]
            @ quote_body tables cs
      | Some (r, width) \<Rightarrow>
          escaped_rune tables r (take width (c # cs)) @ quote_body tables (drop (width - 1) cs))"
  by pat_completeness auto
termination
  by (relation "measure (\<lambda>(tables, s). length s)") auto

definition Quote :: "(int \<Rightarrow> bool) \<Rightarrow> string \<Rightarrow> string" where
  "Quote tables s = [CHR 0x22] @ quote_body tables s @ [CHR 0x22]"

text \<open>
  \<^verbatim>\<open>
  buf := bytes.NewBuffer(nil)
  for arg, val := range evaledArgs {
      if buf.Len() > 0 {
          buf.WriteByte(' ')
      }
      fmt.Fprintf(buf, "--%s", arg)
      if len(val) > 0 {
          fmt.Fprintf(buf, "=%q", val)
      }
  }
  templateArgs.EvaledArgs = buf.String()
  \<close>
  The loop, with the buffer as its state.
\<close>

fun render_loop :: "(int \<Rightarrow> bool) \<Rightarrow> gomap \<Rightarrow> string \<Rightarrow> string" where
  "render_loop tables [] buf = buf"
| "render_loop tables ((arg, val) # rest) buf =
     (let buf1 = (if length buf > 0 then buf @ [CHR '' ''] else buf);
          buf2 = buf1 @ ''--'' @ arg;
          buf3 = (if length val > 0 then buf2 @ ''='' @ Quote tables val else buf2)
      in render_loop tables rest buf3)"

definition render_EvaledArgs :: "(int \<Rightarrow> bool) \<Rightarrow> gomap \<Rightarrow> string" where
  "render_EvaledArgs tables evaled = render_loop tables evaled []"

subsection \<open>Evaluating the templated arguments\<close>

text \<open>
  The configuration types are declared in another file of the package; the fields the
  generator reads are kept. The maps of a machine type and of the cloud have the same
  field names in Go; here the machine's are prefixed with \<open>m\<close> and the cloud's with \<open>c\<close>.
\<close>

record MachineConfig =
  mBenchArgs :: mapref
  mRoachprodArgs :: mapref

record CloudDetails =
  Cloud :: string
  Group :: string
  cBenchArgs :: mapref
  cRoachprodArgs :: mapref
  MachineTypes :: "(string \<times> MachineConfig) list"

record scriptData =
  Details :: CloudDetails
  Cluster :: string
  Lifetime :: string
  MachineType :: string
  ScriptsDir :: string
  EvaledArgs :: string
  BenchArgs :: mapref

text \<open>
  The standard library is a parameter where the generator leans on it. Of the package
  \<^verbatim>\<open>text/template\<close>, \<open>tmpl_parse\<close> gives the error of parsing a text, if any, and
  \<open>tmpl_exec\<close> the output of executing the parsed text against the data, or the error of
  the execution. The data a template can read are the fields of \<^verbatim>\<open>scriptData\<close> and the
  entries of its \<^verbatim>\<open>BenchArgs\<close> map. Of the package \<^verbatim>\<open>strconv\<close>, \<open>print_tables\<close> are the
  Unicode tables of \<^verbatim>\<open>IsPrint\<close> for the runes beyond \<open>0xFF\<close>.
\<close>

record engine =
  tmpl_parse :: "string \<Rightarrow> string option"
  tmpl_exec :: "string \<Rightarrow> scriptData \<Rightarrow> gomap \<Rightarrow> string + string"
  print_tables :: "int \<Rightarrow> bool"

text \<open>A call returns, or it panics with a message.\<close>

datatype 'a outcome = Returned 'a | Panicked string

text \<open>
  \<^verbatim>\<open>
  func evalArgs(
      inputArgs map[string]string, templateArgs scriptData, evaledArgs map[string]string,
  ) error {
      for arg, val := range inputArgs {
          buf := bytes.NewBuffer(nil)
          if err := template.Must(template.New("arg").Parse(val)).Execute(buf, templateArgs); err != nil {
              return fmt.Errorf("error evaluating arg %s: %v", arg, err)
          }
          evaledArgs[arg] = buf.String()
      }
      return nil
  }
  \<close>
  \<^verbatim>\<open>template.Must\<close> panics with the error of \<^verbatim>\<open>Parse\<close>; an error of \<^verbatim>\<open>Execute\<close> is returned,
  wrapped with the name of the argument. The returned \<^verbatim>\<open>error\<close> is \<open>None\<close> for \<^verbatim>\<open>nil\<close>.
  A store into the nil map panics.
\<close>

fun evalArgs_loop ::
  "engine \<Rightarrow> gomap \<Rightarrow> scriptData \<Rightarrow> mapref \<Rightarrow> heap \<Rightarrow> string option outcome \<times> heap" where
  "evalArgs_loop eng [] templateArgs evaledArgs h = (Returned None, h)"
| "evalArgs_loop eng ((arg, val) # rest) templateArgs evaledArgs h =
     (case tmpl_parse eng val of
        Some perr \<Rightarrow> (Panicked perr, h)
      | None \<Rightarrow>
          (case tmpl_exec eng val templateArgs (entries h (BenchArgs templateArgs)) of
             Inl err \<Rightarrow> (Returned (Some (''error evaluating arg '' @ arg @ '': '' @ err)), h)
           | Inr out \<Rightarrow>
               (case evaledArgs of
                  None \<Rightarrow> (Panicked ''assignment to entry in nil map'', h)
                | Some a \<Rightarrow>
                    evalArgs_loop eng rest templateArgs evaledArgs
                      (h\<lparr>cells := (cells h)(a := AList.update arg out (cells h a))\<rparr>))))"

definition evalArgs ::
  "engine \<Rightarrow> heap \<Rightarrow> mapref \<Rightarrow> scriptData \<Rightarrow> mapref \<Rightarrow> string option outcome \<times> heap" where
  "evalArgs eng h inputArgs templateArgs evaledArgs =
     evalArgs_loop eng (entries h inputArgs) templateArgs evaledArgs h"

subsection \<open>One machine type\<close>

text \<open>
  The package variables \<^verbatim>\<open>scriptsDir\<close> and \<^verbatim>\<open>lifetime\<close>, the constant \<^verbatim>\<open>reportVersion\<close>
  and the year of the clock.
\<close>

record settings =
  scriptsDir :: string
  lifetime :: string
  reportVersion :: string
  year :: int

text \<open>
  The body of the loop of \<^verbatim>\<open>generateCloudScripts\<close>, from the cluster name to
  \<^verbatim>\<open>templateArgs.EvaledArgs = buf.String()\<close>:
  \<^verbatim>\<open>
  templateArgs := scriptData{
      CloudDetails: cloud,
      Cluster:      clusterName,
      Lifetime:     lifetime,
      MachineType:  machineType,
      ScriptsDir:   scriptsDir,
      BenchArgs:    combineArgs(machineConfig.BenchArgs, cloud.BenchArgs),
  }
  evaledArgs := make(map[string]string)
  combinedArgs := combineArgs(machineConfig.RoachprodArgs, cloud.RoachprodArgs)
  if err := evalArgs(combinedArgs, templateArgs, evaledArgs); err != nil {
      return err
  }
  \<close>
  The result is the error returned (\<open>Inl\<close>) or the data handed to the script template
  (\<open>Inr\<close>). The rest of the body opens the script file and executes the driver template on
  these data; it stores into no map.
\<close>

definition machineScriptData ::
  "settings \<Rightarrow> engine \<Rightarrow> CloudDetails \<Rightarrow> string \<Rightarrow> MachineConfig \<Rightarrow> heap
     \<Rightarrow> (string + scriptData) outcome \<times> heap" where
  "machineScriptData st eng cloud machineType machineConfig h =
     (let name = clusterName (year st) machineType (Cloud cloud) (Group cloud) (reportVersion st);
          (benchArgs, h1) = combineArgs h (mBenchArgs machineConfig) (cBenchArgs cloud);
          templateArgs = \<lparr>Details = cloud, Cluster = name, Lifetime = lifetime st,
             MachineType = machineType, ScriptsDir = scriptsDir st, EvaledArgs = [],
             BenchArgs = benchArgs\<rparr>;
          (evaledArgs, h2) = make_map h1;
          (combinedArgs, h3) = combineArgs h2 (mRoachprodArgs machineConfig) (cRoachprodArgs cloud)
      in case evalArgs eng h3 combinedArgs templateArgs (Some evaledArgs) of
           (Panicked msg, h4) \<Rightarrow> (Panicked msg, h4)
         | (Returned (Some err), h4) \<Rightarrow> (Returned (Inl err), h4)
         | (Returned None, h4) \<Rightarrow>
             (Returned (Inr (templateArgs\<lparr>EvaledArgs :=
                        render_EvaledArgs (print_tables eng) (cells h4 evaledArgs)\<rparr>)),
              h4))"




subsection \<open>A configuration to compute with\<close>

text \<open>
  A template engine that rejects the text \<^verbatim>\<open>{{\<close> at parsing, fails on \<^verbatim>\<open>{{.Nope}}\<close> at
  execution and copies every other text, with tables that take every rune beyond
  \<open>0xFF\<close> for printable; a store with the maps of a cloud (addresses 0
  and 1) and two maps of templated arguments (2 and 3); a machine type without maps of
  its own.
\<close>

definition example_engine :: engine where
  "example_engine =
     \<lparr>tmpl_parse = (\<lambda>s. if s = ''{{'' then Some ''template: arg:1: unclosed action'' else None),
      tmpl_exec = (\<lambda>s td b.
         if s = ''{{.Nope}}'' then Inl ''template: arg:1:2: executing arg at <.Nope>: can't evaluate field Nope in type cmd.scriptData''
         else Inr s),
      print_tables = (\<lambda>r. True)\<rparr>"

definition example_heap :: heap where
  "example_heap =
     \<lparr>cells = (\<lambda>_. [])(0 := [(''tpcc'', ''-W 1000'')],
                          1 := [(''gce-zones'', ''us-east4-c''), (''local-ssd'', [])],
                          2 := [(''gce-zones'', ''{{'')],
                          3 := [(''gce-zones'', ''{{.Nope}}'')]),
      next_free = 5\<rparr>"

definition example_cloud :: CloudDetails where
  "example_cloud =
     \<lparr>Cloud = ''gce'', Group = [], cBenchArgs = Some 0, cRoachprodArgs = Some 1,
      MachineTypes = [(''n2-standard-16'', \<lparr>mBenchArgs = None, mRoachprodArgs = None\<rparr>)]\<rparr>"

definition example_data :: scriptData where
  "example_data =
     \<lparr>Details = example_cloud, Cluster = ''cldrprt21-n2-standard-16-3458771245'', Lifetime = ''24h'',
      MachineType = ''n2-standard-16'', ScriptsDir = ''./scripts'', EvaledArgs = [],
      BenchArgs = Some 0\<rparr>"

definition example_settings :: settings where
  "example_settings =
     \<lparr>scriptsDir = ''./scripts'', lifetime = ''24h'', reportVersion = ''2021'', year = 2020\<rparr>"

definition outcome_BenchArgs :: "(string + scriptData) outcome \<Rightarrow> mapref" where
  "outcome_BenchArgs r = (case r of Returned (Inr td) \<Rightarrow> BenchArgs td | _ \<Rightarrow> None)"

section \<open>The escalation controller: \<^verbatim>\<open>scripts/gen/tpcc.sh\<close>\<close>

subsection \<open>Commands, files and the shell\<close>

text \<open>
  The script runs under \<^verbatim>\<open>set -e\<close>: a command that exits with a status other than zero
  ends the script, except where the shell ignores the status (the condition of an
  \<^verbatim>\<open>if\<close>, a command substitution in the word list of a \<^verbatim>\<open>for\<close>). The variables set by
  the option loop are the input. The shell keeps them as text, and so does the model:
  the flags \<^verbatim>\<open>-f\<close>, \<^verbatim>\<open>-w\<close> and \<^verbatim>\<open>-s\<close> are set or not, the others hold the text of the
  option argument.
\<close>

record tpcc_flags =
  f_force :: bool
  f_wait :: bool
  f_active :: string
  f_warehouses :: string
  f_skip_load :: bool
  f_duration :: string
  f_inc :: string

text \<open>The values the script gives the variables before it reads the options.\<close>

definition default_flags :: tpcc_flags where
  "default_flags =
     \<lparr>f_force = False, f_wait = False, f_active = ''2500'', f_warehouses = ''3500'',
      f_skip_load = False, f_duration = ''30m'', f_inc = ''250''\<rparr>"

text \<open>
  The commands of the script whose status or effect matters, in the order of the text:
  \<^verbatim>\<open>exec sh -c ...\<close> of the wait mode, \<^verbatim>\<open>echo $$ > "$pidfile"\<close>, \<^verbatim>\<open>rm -rf "$logdir"\<close>,
  \<^verbatim>\<open>mkdir "$logdir"\<close>, \<^verbatim>\<open>cd "$HOME"\<close>, the two \<^verbatim>\<open>./cockroach\<close> commands of the load
  stage, the workload run of a level (the word of the loop variable), and
  \<^verbatim>\<open>touch "$logdir/success"\<close>.
\<close>

datatype cmd =
    Exec_wait
  | Write_pidfile
  | Rm_logdir
  | Mkdir_logdir
  | Cd_home
  | Sql_settings
  | Fixtures_import
  | Workload_run string
  | Touch_success

text \<open>
  What the script does not decide:
  \<^item> whether a command exits with status zero, and whether an interrupt signal arrives
    while it runs;
  \<^item> the report a workload run writes: the list of its lines, a line being the list of
    its fields as \<^verbatim>\<open>awk\<close> splits it;
  \<^item> the value of \<^verbatim>\<open>HOME\<close>;
  \<^item> what \<^verbatim>\<open>seq\<close> prints for arguments other than plain integers of moderate size
    (\<open>seq_other\<close>, from the three texts to the words printed), what \<^verbatim>\<open>awk\<close> makes of
    the two comparisons for a field whose reading depends on the implementation
    (\<open>awk_other\<close>: the values of \<^verbatim>\<open>$n > 85\<close> and \<^verbatim>\<open>$n < 10000\<close>), and whether the pid file
    is there after the trap handler ran on a path with characters special to the shell
    (\<open>trap_other\<close>, from whether it was there before).
\<close>

record world =
  exit_ok :: "cmd \<Rightarrow> bool"
  sigint :: "cmd \<Rightarrow> bool"
  report :: "string \<Rightarrow> string list list"
  home :: string
  seq_other :: "string list \<Rightarrow> string list"
  awk_other :: "string \<Rightarrow> bool \<times> bool"
  trap_other :: "bool \<Rightarrow> bool"

text \<open>The two marker files: does \<^verbatim>\<open>$HOME/tpcc-bench.pid\<close> exist, does \<^verbatim>\<open>$logdir/success\<close>.\<close>

record files =
  pidfile :: bool
  success :: bool

record run =
  fs :: files
  trace :: "cmd list"

text \<open>The effect of a command that succeeds; \<^verbatim>\<open>rm -rf "$logdir"\<close> takes the marker with it.\<close>

fun effect :: "cmd \<Rightarrow> files \<Rightarrow> files" where
  "effect Write_pidfile f = f\<lparr>pidfile := True\<rparr>"
| "effect Rm_logdir f = f\<lparr>success := False\<rparr>"
| "effect Touch_success f = f\<lparr>success := True\<rparr>"
| "effect c f = f"

text \<open>
  \<^verbatim>\<open>
  pidfile="$HOME/tpcc-bench.pid"
  trap "rm -f $pidfile" EXIT SIGINT
  echo $$ > "$pidfile"
  \<close>
  The pid file is written under its quoted path. The text of the handler is put
  together when the trap is set, \<^verbatim>\<open>rm -f\<close> followed by the path without quotes, and the
  shell reads that text as a command line when the handler runs. A path of letters,
  digits, slashes, dots, underscores and hyphens is one word, and the handler removes
  the pid file. With spaces or tabs in such a path the shell splits it into several
  words; none of them is the path of the pid file, which stays (links through which
  another name would lead to the same file are left out). For a path with any other
  character the outcome is \<open>trap_other\<close>.
\<close>

definition word_char :: "char \<Rightarrow> bool" where
  "word_char c \<longleftrightarrow>
     (65 \<le> (of_char c :: nat) \<and> (of_char c :: nat) \<le> 90) \<or>
     (97 \<le> (of_char c :: nat) \<and> (of_char c :: nat) \<le> 122) \<or>
     (48 \<le> (of_char c :: nat) \<and> (of_char c :: nat) \<le> 57) \<or>
     c = CHR ''/'' \<or> c = CHR ''.'' \<or> c = CHR ''_'' \<or> c = CHR ''-''"

definition blank :: "char \<Rightarrow> bool" where
  "blank c \<longleftrightarrow> c = CHR '' '' \<or> c = CHR 0x09"

definition pidfile_path :: "world \<Rightarrow> string" where
  "pidfile_path w = home w @ ''/tpcc-bench.pid''"

definition trap_handler :: "world \<Rightarrow> files \<Rightarrow> files" where
  "trap_handler w f =
     (if list_all word_char (pidfile_path w) then f\<lparr>pidfile := False\<rparr>
      else if list_all (\<lambda>c. word_char c \<or> blank c) (pidfile_path w) then f
      else f\<lparr>pidfile := trap_other w (pidfile f)\<rparr>)"

text \<open>
  One command: \<open>Inr\<close> when the script goes on, \<open>Inl\<close> when \<^verbatim>\<open>set -e\<close> ends it. On an
  interrupt signal the handler runs once the command at hand has ended, and the script
  goes on as the status of that command says.
\<close>

definition run_cmd :: "world \<Rightarrow> cmd \<Rightarrow> run \<Rightarrow> run + run" where
  "run_cmd w c r =
     (let r1 = r\<lparr>trace := trace r @ [c]\<rparr>;
          r2 = (if exit_ok w c then r1\<lparr>fs := effect c (fs r1)\<rparr> else r1);
          r3 = (if sigint w c then r2\<lparr>fs := trap_handler w (fs r2)\<rparr> else r2)
      in if exit_ok w c then Inr r3 else Inl r3)"

text \<open>Sequencing: the next step runs only when the script goes on.\<close>

definition and_then :: "'a + 'a \<Rightarrow> ('a \<Rightarrow> 'a + 'a) \<Rightarrow> 'a + 'a" where
  "and_then x f = (case x of Inl r \<Rightarrow> Inl r | Inr r \<Rightarrow> f r)"

definition final :: "'a + 'a \<Rightarrow> 'a" where
  "final x = (case x of Inl r \<Rightarrow> r | Inr r \<Rightarrow> r)"

subsection \<open>The levels\<close>

text \<open>
  The text of an integer as \<^verbatim>\<open>seq\<close> reads it: an optional sign and decimal digits. The
  text of a negative zero is left out, since \<^verbatim>\<open>seq\<close> keeps its sign.
\<close>

definition digits_val :: "string \<Rightarrow> int" where
  "digits_val ds = foldl (\<lambda>a c. 10 * a + (int (of_char c) - 48)) 0 ds"

definition is_digits :: "string \<Rightarrow> bool" where
  "is_digits ds \<longleftrightarrow> ds \<noteq> [] \<and> list_all is_digit ds"

definition int_numeral :: "string \<Rightarrow> int option" where
  "int_numeral s =
     (case s of
        [] \<Rightarrow> None
      | c # t \<Rightarrow>
          if c = CHR ''+'' then (if is_digits t then Some (digits_val t) else None)
          else if c = CHR ''-'' then
            (if is_digits t \<and> digits_val t \<noteq> 0 then Some (- digits_val t) else None)
          else if is_digits s then Some (digits_val s)
          else None)"

text \<open>
  \<^verbatim>\<open>seq FIRST INCREMENT LAST\<close> on integers: from the first value in steps of the increment
  while the last value is not passed, upwards for a positive increment, downwards for a
  negative one, each value printed in decimal.
\<close>

function seq_up :: "int \<Rightarrow> int \<Rightarrow> int \<Rightarrow> int list" where
  "seq_up first inc lst =
     (if 0 < inc \<and> first \<le> lst then first # seq_up (first + inc) inc lst else [])"
  by auto
termination
  by (relation "measure (\<lambda>(first, inc, lst). nat (lst - first + 1))") auto

function seq_down :: "int \<Rightarrow> int \<Rightarrow> int \<Rightarrow> int list" where
  "seq_down first inc lst =
     (if inc < 0 \<and> lst \<le> first then first # seq_down (first + inc) inc lst else [])"
  by auto
termination
  by (relation "measure (\<lambda>(first, inc, lst). nat (first - lst + 1))") auto

declare seq_up.simps [simp del] seq_down.simps [simp del]

text \<open>
  The command with the three texts as its arguments. When each is the text of an
  integer of absolute value at most \<open>2\<^sup>5\<^sup>2\<close>, where the arithmetic of \<^verbatim>\<open>seq\<close> is exact: GNU
  \<^verbatim>\<open>seq\<close> rejects the increment zero and prints nothing, and prints the values otherwise.
  For any other texts (a fraction, an exponent, a larger number, an empty text or one
  that the shell splits or expands) the words printed are \<open>seq_other\<close>.
\<close>

definition seq :: "world \<Rightarrow> string \<Rightarrow> string \<Rightarrow> string \<Rightarrow> string list" where
  "seq w first inc lst =
     (case (int_numeral first, int_numeral inc, int_numeral lst) of
        (Some x, Some y, Some z) \<Rightarrow>
          if \<bar>x\<bar> \<le> 4503599627370496 \<and> \<bar>y\<bar> \<le> 4503599627370496 \<and> \<bar>z\<bar> \<le> 4503599627370496
          then (if y = 0 then []
                else if 0 < y then map fmt_d (seq_up x y z)
                else map fmt_d (seq_down x y z))
          else seq_other w [first, inc, lst]
      | _ \<Rightarrow> seq_other w [first, inc, lst])"

text \<open>
  \<^verbatim>\<open>
  if [[ $f_inc == 0 ]];
  then
    f_inc=$f_warehouses
  fi

  for active in `seq $f_active $f_inc $f_warehouses`
  \<close>
  The test compares the text of the increment with the pattern \<^verbatim>\<open>0\<close>, which only the
  text \<^verbatim>\<open>0\<close> matches. The status of the command substitution is ignored, so that the loop
  has no level when \<^verbatim>\<open>seq\<close> prints nothing.
\<close>

definition levels :: "world \<Rightarrow> tpcc_flags \<Rightarrow> string list" where
  "levels w fl =
     seq w (f_active fl) (if f_inc fl = ''0'' then f_warehouses fl else f_inc fl)
       (f_warehouses fl)"

subsection \<open>The rule and the loop\<close>

text \<open>
  \<^verbatim>\<open>tail -1 "$report" | awk '{if($3 > 85 && $7 < 10000){print "pass"}}'\<close>.
  A field beyond the end of the line is the empty text. How \<^verbatim>\<open>awk\<close> compares a field
  with a number depends on the text of the field:
  \<^item> a decimal numeral (an optional sign, digits, an optional point and digits; at most
    300 characters) is a number, and the comparison is one of numbers;
  \<^item> a text that no implementation reads as a number, such as \<^verbatim>\<open>96.6%\<close>, is compared as
    a string with the text of the constant, byte by byte;
  \<^item> the remaining texts are read differently by different implementations: a text
    with a blank or a control character, one that goes on like an exponent after a
    decimal numeral, one that starts like a hexadecimal number or like \<^verbatim>\<open>inf\<close> or \<^verbatim>\<open>nan\<close>,
    and a decimal numeral of more than 300 characters.
\<close>

datatype awk_val = Decimal int nat | Text | Unspecified

definition sign_of :: "string \<Rightarrow> int \<times> string" where
  "sign_of s =
     (case s of
        [] \<Rightarrow> (1, [])
      | c # t \<Rightarrow> if c = CHR ''+'' then (1, t) else if c = CHR ''-'' then (- 1, t) else (1, s))"

definition awk_classify :: "string \<Rightarrow> awk_val" where
  "awk_classify f =
     (let (sg, t) = sign_of f;
          ip = takeWhile is_digit t;
          r = dropWhile is_digit t
      in if \<exists>c \<in> set f. (of_char c :: nat) \<le> 0x20 \<or> (of_char c :: nat) = 0x7F then Unspecified
         else
           (case r of
              [] \<Rightarrow> if ip = [] then Text
                     else if length f \<le> 300 then Decimal (sg * digits_val ip) 0
                     else Unspecified
            | c # fr \<Rightarrow>
                if c = CHR ''.'' then
                  (let fd = takeWhile is_digit fr; r2 = dropWhile is_digit fr
                   in if ip = [] \<and> fd = [] then Text
                      else
                        (case r2 of
                           [] \<Rightarrow> if length f \<le> 300
                                  then Decimal (sg * digits_val (ip @ fd)) (length fd)
                                  else Unspecified
                         | c2 # _ \<Rightarrow>
                             if c2 = CHR ''e'' \<or> c2 = CHR ''E'' then Unspecified else Text))
                else if ip = [] then
                  (if c \<in> set ''iInN'' then Unspecified else Text)
                else if c = CHR ''e'' \<or> c = CHR ''E'' then Unspecified
                else if (c = CHR ''x'' \<or> c = CHR ''X'') \<and> ip = ''0'' then Unspecified
                else Text))"

text \<open>The order of strings byte by byte, a proper prefix first.\<close>

fun str_less :: "string \<Rightarrow> string \<Rightarrow> bool" where
  "str_less [] [] = False"
| "str_less [] (y # ys) = True"
| "str_less (x # xs) [] = False"
| "str_less (x # xs) (y # ys) =
     ((of_char x :: nat) < of_char y \<or> (x = y \<and> str_less xs ys))"

text \<open>
  The two comparisons. A number is converted to a double, to the nearest one and to the
  even one of two nearest, before it is compared. The doubles next to 85 are \<open>2\<^sup>-\<^sup>4\<^sup>6\<close>
  apart and those next to 10000 are \<open>2\<^sup>-\<^sup>3\<^sup>9\<close> apart, and both constants are even in their
  last place: a number becomes a double greater than 85 exactly when it exceeds
  \<open>85 + 2\<^sup>-\<^sup>4\<^sup>7\<close>, and a double less than 10000 exactly when it is below
  \<open>10000 - 2\<^sup>-\<^sup>4\<^sup>0\<close>. The number of \<open>Decimal m k\<close> is \<open>m / 10\<^sup>k\<close>.
\<close>

definition gt_85 :: "world \<Rightarrow> string \<Rightarrow> bool" where
  "gt_85 w f =
     (case awk_classify f of
        Decimal m k \<Rightarrow> m * 2 ^ 47 > (85 * 2 ^ 47 + 1) * 10 ^ k
      | Text \<Rightarrow> str_less ''85'' f
      | Unspecified \<Rightarrow> fst (awk_other w f))"

definition lt_10000 :: "world \<Rightarrow> string \<Rightarrow> bool" where
  "lt_10000 w f =
     (case awk_classify f of
        Decimal m k \<Rightarrow> m * 2 ^ 40 < (10000 * 2 ^ 40 - 1) * 10 ^ k
      | Text \<Rightarrow> str_less f ''10000''
      | Unspecified \<Rightarrow> snd (awk_other w f))"

definition awk_field :: "string list \<Rightarrow> nat \<Rightarrow> string" where
  "awk_field line n = (if 0 < n \<and> n \<le> length line then line ! (n - 1) else [])"

text \<open>
  The output of the pipeline, without the final newline; an empty report has no last
  line and gives no output.
\<close>

definition tail_awk :: "world \<Rightarrow> string list list \<Rightarrow> string" where
  "tail_awk w rep =
     (if rep = [] then []
      else if gt_85 w (awk_field (last rep) 3) \<and> lt_10000 w (awk_field (last rep) 7)
      then ''pass''
      else [])"

text \<open>
  \<^verbatim>\<open>
  for active in `seq $f_active $f_inc $f_warehouses`
  do
    echo "Running TPCC: $active"
    report="${logdir}/tpcc-results-$active.txt"
  ./cockroach workload run tpcc \
      --warehouses="$f_warehouses"  \
      --active-warehouses="$active" \
      --ramp=1m --duration="$f_duration" \
      "${pgurls[@]}" > "$report"

      if [[ $(tail -1 "$report" | awk '{if($3 > 85 && $7 < 10000){print "pass"}}') != "pass" ]];
      then
        break
      fi
  done

  touch "$logdir/success"
  \<close>
\<close>

fun ramp_loop :: "world \<Rightarrow> string list \<Rightarrow> run \<Rightarrow> run + run" where
  "ramp_loop w [] r = Inr r"
| "ramp_loop w (active # rest) r =
     (case run_cmd w (Workload_run active) r of
        Inl r' \<Rightarrow> Inl r'
      | Inr r' \<Rightarrow>
          if tail_awk w (report w active) \<noteq> ''pass'' then Inr r' else ramp_loop w rest r')"

definition ramp_phase :: "world \<Rightarrow> tpcc_flags \<Rightarrow> run \<Rightarrow> run + run" where
  "ramp_phase w fl r = and_then (ramp_loop w (levels w fl) r) (run_cmd w Touch_success)"

subsection \<open>The script\<close>

definition load_stage :: "world \<Rightarrow> tpcc_flags \<Rightarrow> run \<Rightarrow> run + run" where
  "load_stage w fl r =
     (if \<not> f_skip_load fl
      then and_then (run_cmd w Sql_settings r) (run_cmd w Fixtures_import)
      else Inr r)"

text \<open>
  From \<^verbatim>\<open>echo $$ > "$pidfile"\<close>, which follows the \<^verbatim>\<open>trap\<close>, to the end of the text.
\<close>

definition guarded_section :: "world \<Rightarrow> tpcc_flags \<Rightarrow> run \<Rightarrow> run + run" where
  "guarded_section w fl r =
     and_then
       (and_then
          (and_then
             (and_then
                (and_then (run_cmd w Write_pidfile r) (run_cmd w Rm_logdir))
                (run_cmd w Mkdir_logdir))
             (run_cmd w Cd_home))
          (load_stage w fl))
       (ramp_phase w fl)"

text \<open>How the process ends.\<close>

datatype ending = Waited | Already_running | Usage | Aborted | Completed

text \<open>
  The whole script, from the state of the files it finds. The wait mode replaces the
  shell by another process before any trap is set. With a pid file present and no
  \<^verbatim>\<open>-f\<close> the script exits at once, and without a pgurl it prints the usage and exits;
  both happen before the trap is set. Past these, the trap is set and the handler runs
  when the shell exits, however it exits.
\<close>

definition tpcc_sh :: "world \<Rightarrow> tpcc_flags \<Rightarrow> string list \<Rightarrow> files \<Rightarrow> ending \<times> run" where
  "tpcc_sh w fl pgurls f0 =
     (if f_wait fl then (Waited, \<lparr>fs = f0, trace = [Exec_wait]\<rparr>)
      else if pidfile f0 \<and> \<not> f_force fl then (Already_running, \<lparr>fs = f0, trace = []\<rparr>)
      else if pgurls = [] then (Usage, \<lparr>fs = f0, trace = []\<rparr>)
      else
        (case guarded_section w fl \<lparr>fs = f0, trace = []\<rparr> of
           Inl r \<Rightarrow> (Aborted, r\<lparr>fs := trap_handler w (fs r)\<rparr>)
         | Inr r \<Rightarrow> (Completed, r\<lparr>fs := trap_handler w (fs r)\<rparr>)))"

text \<open>The levels whose workload run was started, in the order of the trace.\<close>

fun level_of :: "cmd \<Rightarrow> string option" where
  "level_of (Workload_run l) = Some l"
| "level_of c = None"

definition levels_run :: "cmd list \<Rightarrow> string list" where
  "levels_run tr = List.map_filter level_of tr"

subsection \<open>Worlds to compute with\<close>

text \<open>
  A level passes when its workload run exits with status zero and the rule prints
  \<^verbatim>\<open>pass\<close> for the last line of its report.
\<close>

definition passes :: "world \<Rightarrow> string \<Rightarrow> bool" where
  "passes w l \<longleftrightarrow> exit_ok w (Workload_run l) \<and> tail_awk w (report w l) = ''pass''"

text \<open>
  A world in which every command succeeds, no signal arrives and every report ends in a
  line as the workload prints it, with an efficiency of 96.6% in column 3 and 318.8 in
  column 7.
\<close>

definition calm :: world where
  "calm =
     \<lparr>exit_ok = (\<lambda>c. True), sigint = (\<lambda>c. False),
      report = (\<lambda>l. [[''_elapsed'', ''tpmC'', ''efc'', ''avg(ms)'', ''p50(ms)'', ''p90(ms)'',
                       ''p95(ms)'', ''p99(ms)'', ''pMax(ms)''],
                      [''1800.0s'', ''31064.6'', ''96.6%'', ''183.4'', ''167.8'', ''251.7'',
                       ''318.8'', ''604.0'', ''4160.7'']]),
      home = ''/home/ubuntu'',
      seq_other = (\<lambda>args. []), awk_other = (\<lambda>f. (False, False)), trap_other = (\<lambda>b. b)\<rparr>"



text \<open>
  A world in which the workload run at level 2750 is killed by an interrupt signal,
  which the shell receives as well. And a world whose \<^verbatim>\<open>HOME\<close> has a space in it.
\<close>

definition interrupted_world :: world where
  "interrupted_world =
     calm\<lparr>exit_ok := (\<lambda>c. c \<noteq> Workload_run ''2750''), sigint := (\<lambda>c. c = Workload_run ''2750'')\<rparr>"

definition spaced_home_world :: world where
  "spaced_home_world = calm\<lparr>home := ''/home/cloud report''\<rparr>"

section \<open>The generated driver script: \<^verbatim>\<open>driverTemplate\<close>\<close>

text \<open>
  The text of the template after the option loop, as the shell runs it, again under
  \<^verbatim>\<open>set -e\<close>. The benchmarks requested with \<^verbatim>\<open>-w\<close> are kept in the array
  \<^verbatim>\<open>benchmarks\<close>, by the names of their shell functions.
\<close>

datatype bench = bench_cpu | bench_io | bench_net | bench_tpcc

text \<open>The case \<^verbatim>\<open>w)\<close> of the option loop; another value prints the usage and exits.\<close>

definition w_option :: "string \<Rightarrow> bench list \<Rightarrow> bench list option" where
  "w_option optarg bs =
     (if optarg = ''cpu'' then Some (bs @ [bench_cpu])
      else if optarg = ''io'' then Some (bs @ [bench_io])
      else if optarg = ''net'' then Some (bs @ [bench_net])
      else if optarg = ''tpcc'' then Some (bs @ [bench_tpcc])
      else if optarg = ''all'' then Some (bs @ [bench_cpu, bench_io, bench_net, bench_tpcc])
      else None)"

record driver_flags =
  benchmarks :: "bench list"
  f_resume :: bool
  do_create :: bool
  do_upload :: bool
  do_setup :: bool
  do_destroy :: bool
  cockroach_binary :: string

text \<open>
  The \<^verbatim>\<open>roachprod\<close> commands of the shell functions: those of \<^verbatim>\<open>create_cluster\<close>, of
  \<^verbatim>\<open>upload_scripts\<close> and of \<^verbatim>\<open>setup_cluster\<close>; \<^verbatim>\<open>run_under_tmux\<close>, which starts the script
  of a benchmark in a window of the session; the address and the server of netperf; the
  listing of the disks, the start of the database and its urls; the wait for a benchmark
  (its script with \<^verbatim>\<open>-w\<close>), the retrieval of its results; \<^verbatim>\<open>destroy_cluster\<close>.
\<close>

datatype rp =
    Create
  | Tmux_new
  | Rm_scripts
  | Put_scripts
  | Chmod_scripts
  | Rm_cockroach
  | Stage_cockroach
  | Put_cockroach string
  | Setup_sh
  | Run_under_tmux bench
  | Ip_server
  | Netperf_server
  | Ls_stores
  | Start_cockroach
  | Pgurl
  | Wait_for bench
  | Get_results bench
  | Destroy

text \<open>
  Whether the command issued at a position of the run exits with status zero is not
  decided by the script. A command is recorded when it is issued.
\<close>

definition issue :: "(nat \<Rightarrow> rp \<Rightarrow> bool) \<Rightarrow> rp \<Rightarrow> rp list \<Rightarrow> rp list + rp list" where
  "issue ok c tr = (if ok (length tr) c then Inr (tr @ [c]) else Inl (tr @ [c]))"

definition create_cluster :: "(nat \<Rightarrow> rp \<Rightarrow> bool) \<Rightarrow> rp list \<Rightarrow> rp list + rp list" where
  "create_cluster ok tr = and_then (issue ok Create tr) (issue ok Tmux_new)"

definition upload_scripts ::
  "(nat \<Rightarrow> rp \<Rightarrow> bool) \<Rightarrow> string \<Rightarrow> rp list \<Rightarrow> rp list + rp list" where
  "upload_scripts ok binary tr =
     and_then
       (and_then
          (and_then
             (and_then (issue ok Rm_scripts tr) (issue ok Put_scripts))
             (issue ok Chmod_scripts))
          (issue ok Rm_cockroach))
       (issue ok (if binary = [] then Stage_cockroach else Put_cockroach binary))"

text \<open>
  In \<^verbatim>\<open>start_cockroach\<close> the listing of the disks is a command substitution in the word
  list of a \<^verbatim>\<open>for\<close>; its status is ignored.
\<close>

definition start_cockroach :: "(nat \<Rightarrow> rp \<Rightarrow> bool) \<Rightarrow> rp list \<Rightarrow> rp list + rp list" where
  "start_cockroach ok tr = issue ok Start_cockroach (tr @ [Ls_stores])"

definition setup_cluster :: "(nat \<Rightarrow> rp \<Rightarrow> bool) \<Rightarrow> rp list \<Rightarrow> rp list + rp list" where
  "setup_cluster ok tr = issue ok Setup_sh tr"

text \<open>The functions \<^verbatim>\<open>bench_cpu\<close>, \<^verbatim>\<open>bench_io\<close>, \<^verbatim>\<open>bench_net\<close> and \<^verbatim>\<open>bench_tpcc\<close>.\<close>

fun start_bench :: "(nat \<Rightarrow> rp \<Rightarrow> bool) \<Rightarrow> bench \<Rightarrow> rp list \<Rightarrow> rp list + rp list" where
  "start_bench ok bench_cpu tr = issue ok (Run_under_tmux bench_cpu) tr"
| "start_bench ok bench_io tr = issue ok (Run_under_tmux bench_io) tr"
| "start_bench ok bench_net tr =
     and_then (and_then (issue ok Ip_server tr) (issue ok Netperf_server))
       (issue ok (Run_under_tmux bench_net))"
| "start_bench ok bench_tpcc tr =
     and_then (and_then (start_cockroach ok tr) (issue ok Pgurl))
       (issue ok (Run_under_tmux bench_tpcc))"

text \<open>
  The functions \<^verbatim>\<open>fetch_bench_cpu_results\<close> and its three siblings: wait for the
  benchmark, then get its results.
\<close>

definition fetch_results :: "(nat \<Rightarrow> rp \<Rightarrow> bool) \<Rightarrow> bench \<Rightarrow> rp list \<Rightarrow> rp list + rp list" where
  "fetch_results ok b tr = and_then (issue ok (Wait_for b) tr) (issue ok (Get_results b))"

definition destroy_cluster :: "(nat \<Rightarrow> rp \<Rightarrow> bool) \<Rightarrow> rp list \<Rightarrow> rp list + rp list" where
  "destroy_cluster ok tr = issue ok Destroy tr"

text \<open>A \<^verbatim>\<open>for\<close> loop over the array, and an \<^verbatim>\<open>if\<close> on a flag.\<close>

fun for_each :: "('b \<Rightarrow> 'a \<Rightarrow> 'a + 'a) \<Rightarrow> 'b list \<Rightarrow> 'a \<Rightarrow> 'a + 'a" where
  "for_each f [] tr = Inr tr"
| "for_each f (b # bs) tr = and_then (f b tr) (for_each f bs)"

definition when_set :: "bool \<Rightarrow> ('a \<Rightarrow> 'a + 'a) \<Rightarrow> 'a \<Rightarrow> 'a + 'a" where
  "when_set flag f tr = (if flag then f tr else Inr tr)"

text \<open>
  \<^verbatim>\<open>
  if [ -z "$f_resume" ]
  then
    # Execute requested benchmarks.
    for bench in "${benchmarks[@]}"
    do
      $bench
    done
  fi

  # Wait for benchmarks to finsh and fetch their results.
  for bench in "${benchmarks[@]}"
  do
    echo "Waiting for $bench to complete"
    fetch="fetch_${bench}_results"
    $fetch
  done
  \<close>
  between the three bootstrap steps (\<^verbatim>\<open>create_cluster\<close>, \<^verbatim>\<open>upload_scripts\<close> and
  \<^verbatim>\<open>setup_cluster\<close>, each under its flag) and the destruction of the cluster. The result
  is the list of the commands issued.
\<close>

definition bootstrap :: "(nat \<Rightarrow> rp \<Rightarrow> bool) \<Rightarrow> driver_flags \<Rightarrow> rp list + rp list" where
  "bootstrap ok fl =
     and_then
       (and_then (when_set (do_create fl) (create_cluster ok) [])
          (when_set (do_upload fl) (upload_scripts ok (cockroach_binary fl))))
       (when_set (do_setup fl) (setup_cluster ok))"

definition driver :: "(nat \<Rightarrow> rp \<Rightarrow> bool) \<Rightarrow> driver_flags \<Rightarrow> rp list" where
  "driver ok fl =
     final
       (and_then
          (and_then
             (and_then (bootstrap ok fl)
                (when_set (\<not> f_resume fl) (for_each (start_bench ok) (benchmarks fl))))
             (for_each (fetch_results ok) (benchmarks fl)))
          (when_set (do_destroy fl) (destroy_cluster ok)))"

text \<open>The commands that start a benchmark, and those that wait for one and fetch.\<close>

fun is_start :: "rp \<Rightarrow> bool" where
  "is_start (Run_under_tmux b) = True"
| "is_start Ip_server = True"
| "is_start Netperf_server = True"
| "is_start Ls_stores = True"
| "is_start Start_cockroach = True"
| "is_start Pgurl = True"
| "is_start c = False"

fun is_fetch :: "rp \<Rightarrow> bool" where
  "is_fetch (Wait_for b) = True"
| "is_fetch (Get_results b) = True"
| "is_fetch c = False"

text \<open>Two benchmarks requested in resume mode, with the destruction of the cluster.\<close>

definition resume_flags :: driver_flags where
  "resume_flags =
     \<lparr>benchmarks = [bench_cpu, bench_tpcc], f_resume = True, do_create = False,
      do_upload = False, do_setup = False, do_destroy = True, cockroach_binary = []\<rparr>"

section \<open>Properties of the generator\<close>

lemma map_of_combine_loop:
  "map_of (combine_loop bs m) k = (case map_of m k of Some v \<Rightarrow> Some v | None \<Rightarrow> map_of bs k)"
proof (induction bs m rule: combine_loop.induct)
  case (1 m)
  then show ?case by (simp split: option.splits)
next
  case (2 arg val rest m)
  then show ?case by (auto simp: update_conv' split: option.splits)
qed

lemma lookup_combineArgs:
  "lookup (snd (combineArgs h T D)) (fst (combineArgs h T D)) k =
     (case lookup h T k of Some v \<Rightarrow> Some v | None \<Rightarrow> lookup h D k)"
  by (cases T)
    (simp_all add: combineArgs_def lookup_def entries_def map_of_combine_loop
      split: option.splits)

lemma keys_dom: "keys h r = {k. lookup h r k \<noteq> None}"
  by (auto simp: keys_def lookup_def map_of_eq_None_iff)

text \<open>
  Claim C2. With \<open>merge(T, D)\<close> read as the map returned by \<^verbatim>\<open>combineArgs(T, D)\<close>, in the
  store it leaves behind, and \<open>T[k]\<close>, \<open>D[k]\<close> read in the store before the call: every key
  of \<open>T\<close> keeps the value of \<open>T\<close>, every key of \<open>D\<close> that \<open>T\<close> lacks takes the value of \<open>D\<close>,
  and the result has no other key.
\<close>

theorem combineArgs_merge:
  "(k \<in> keys h T \<longrightarrow>
      lookup (snd (combineArgs h T D)) (fst (combineArgs h T D)) k = lookup h T k) \<and>
   (k \<in> keys h D - keys h T \<longrightarrow>
      lookup (snd (combineArgs h T D)) (fst (combineArgs h T D)) k = lookup h D k) \<and>
   keys (snd (combineArgs h T D)) (fst (combineArgs h T D)) = keys h T \<union> keys h D"
  unfolding keys_dom
  by (auto simp: lookup_combineArgs split: option.splits)

theorem combineArgs_merge_witness:
  "''b'' \<in> keys \<lparr>cells = (\<lambda>_. [])(0 := [(''a'', ''1'')], 1 := [(''a'', ''2''), (''b'', ''3'')]), next_free = 2\<rparr> (Some 1)
          - keys \<lparr>cells = (\<lambda>_. [])(0 := [(''a'', ''1'')], 1 := [(''a'', ''2''), (''b'', ''3'')]), next_free = 2\<rparr> (Some 0) \<and>
   ''a'' \<in> keys \<lparr>cells = (\<lambda>_. [])(0 := [(''a'', ''1'')], 1 := [(''a'', ''2''), (''b'', ''3'')]), next_free = 2\<rparr> (Some 0) \<and>
   lookup (snd (combineArgs \<lparr>cells = (\<lambda>_. [])(0 := [(''a'', ''1'')], 1 := [(''a'', ''2''), (''b'', ''3'')]), next_free = 2\<rparr> (Some 0) (Some 1)))
     (fst (combineArgs \<lparr>cells = (\<lambda>_. [])(0 := [(''a'', ''1'')], 1 := [(''a'', ''2''), (''b'', ''3'')]), next_free = 2\<rparr> (Some 0) (Some 1))) ''b'' = Some ''3'' \<and>
   lookup (snd (combineArgs \<lparr>cells = (\<lambda>_. [])(0 := [(''a'', ''1'')], 1 := [(''a'', ''2''), (''b'', ''3'')]), next_free = 2\<rparr> (Some 0) (Some 1)))
     (fst (combineArgs \<lparr>cells = (\<lambda>_. [])(0 := [(''a'', ''1'')], 1 := [(''a'', ''2''), (''b'', ''3'')]), next_free = 2\<rparr> (Some 0) (Some 1))) ''a'' = Some ''1''"
  using combineArgs_merge [of "''b''" "\<lparr>cells = (\<lambda>_. [])(0 := [(''a'', ''1'')], 1 := [(''a'', ''2''), (''b'', ''3'')]), next_free = 2\<rparr>" "Some 0" "Some 1"]
    combineArgs_merge [of "''a''" "\<lparr>cells = (\<lambda>_. [])(0 := [(''a'', ''1'')], 1 := [(''a'', ''2''), (''b'', ''3'')]), next_free = 2\<rparr>" "Some 0" "Some 1"]
  by (simp add: keys_def lookup_def entries_def)

subsection \<open>Cluster names\<close>

lemma digit_char_digit: "0 \<le> i \<Longrightarrow> i < 10 \<Longrightarrow> is_digit (digit_char i)"
proof -
  assume "0 \<le> i" "i < 10"
  then have "i = 0 \<or> i = 1 \<or> i = 2 \<or> i = 3 \<or> i = 4 \<or> i = 5 \<or> i = 6 \<or> i = 7 \<or> i = 8 \<or> i = 9"
    by arith
  then show ?thesis
    by (auto simp: digit_char_def is_digit_def)
qed

lemma decimal_digits: "0 \<le> i \<Longrightarrow> c \<in> set (decimal i) \<Longrightarrow> is_digit c"
proof (induction i rule: decimal.induct)
  case (1 i)
  show ?case
  proof (cases "i < 10")
    case True
    with 1 show ?thesis by (simp add: decimal.simps [of i] digit_char_digit)
  next
    case False
    with 1 show ?thesis
      by (auto simp: decimal.simps [of i] digit_char_digit)
  qed
qed

lemma fmt_d_chars: "c \<in> set (fmt_d i) \<Longrightarrow> is_digit c \<or> c = CHR ''-''"
  using decimal_digits [of "- i" c] decimal_digits [of i c]
  by (cases "i < 0") (auto simp: fmt_d_def)

lemma ReplaceAllString_map:
  "ReplaceAllString cls src [r] = map (\<lambda>c. if cls c then r else c) src"
  by (induction src) (simp_all add: ReplaceAllString_def)

lemma set_ReplaceAllString:
  "set (ReplaceAllString cls src [r]) = (\<lambda>c. if cls c then r else c) ` set src"
  by (induction src) (auto simp: ReplaceAllString_def)

lemma letters_literal: "c \<in> set ''cldrprt'' \<Longrightarrow> is_letter c"
  by (auto simp: is_letter_def)

text \<open>
  Claim C5, as amended. The sanitization replaces the dot, the vertical bar and the
  underscore, and nothing else: the cluster name is the formatted name with a hyphen in
  the place of each of these three characters and every other character left where it
  is. So no character of the cluster name is one of the three, every other character of
  the machine type is kept, and the name consists of letters, digits and hyphens
  whenever the machine type has no character beyond letters, digits, hyphens and the
  three replaced ones.
\<close>

theorem clusterName_sanitized:
  "clusterName y m cl g v =
     map (\<lambda>c. if validClusterName c then CHR ''-'' else c)
       (''cldrprt'' @ fmt_d ((1 + y) smod 1000) @ ''-'' @ m @ ''-''
          @ decimal (uint (hashStrings [cl, g, v]))) \<and>
   (\<forall>c \<in> set (clusterName y m cl g v). \<not> validClusterName c) \<and>
   (\<forall>c \<in> set m. \<not> validClusterName c \<longrightarrow> c \<in> set (clusterName y m cl g v)) \<and>
   ((\<forall>c \<in> set m. identity_char c \<or> validClusterName c) \<longrightarrow>
      (\<forall>c \<in> set (clusterName y m cl g v). identity_char c))"
proof (intro conjI)
  show "clusterName y m cl g v =
     map (\<lambda>c. if validClusterName c then CHR ''-'' else c)
       (''cldrprt'' @ fmt_d ((1 + y) smod 1000) @ ''-'' @ m @ ''-''
          @ decimal (uint (hashStrings [cl, g, v])))"
    unfolding clusterName_def by (rule ReplaceAllString_map)
  show "\<forall>c \<in> set (clusterName y m cl g v). \<not> validClusterName c"
    by (auto simp: clusterName_def set_ReplaceAllString validClusterName_def)
  show "\<forall>c \<in> set m. \<not> validClusterName c \<longrightarrow> c \<in> set (clusterName y m cl g v)"
    by (force simp: clusterName_def set_ReplaceAllString)
  show "(\<forall>c \<in> set m. identity_char c \<or> validClusterName c) \<longrightarrow>
      (\<forall>c \<in> set (clusterName y m cl g v). identity_char c)"
  proof (intro impI ballI)
    fix c
    assume m: "\<forall>c \<in> set m. identity_char c \<or> validClusterName c"
      and c: "c \<in> set (clusterName y m cl g v)"
    have hyph: "identity_char CHR ''-''" by (simp add: identity_char_def)
    from c obtain d where d: "c = (if validClusterName d then CHR ''-'' else d)"
      and "d \<in> set (''cldrprt'' @ fmt_d ((1 + y) smod 1000) @ ''-'' @ m @ ''-''
          @ decimal (uint (hashStrings [cl, g, v])))"
      unfolding clusterName_def set_ReplaceAllString by blast
    then have "d \<in> set ''cldrprt'' \<or> d \<in> set (fmt_d ((1 + y) smod 1000)) \<or> d = CHR ''-'' \<or> d \<in> set m
         \<or> d \<in> set (decimal (uint (hashStrings [cl, g, v])))"
      unfolding set_append by auto
    then consider "d \<in> set ''cldrprt''" | "d \<in> set (fmt_d ((1 + y) smod 1000))" | "d = CHR ''-''"
      | "d \<in> set m" | "d \<in> set (decimal (uint (hashStrings [cl, g, v])))" by blast
    then have "validClusterName d \<or> identity_char d"
    proof cases
      case 1 then show ?thesis using letters_literal identity_char_def by blast
    next
      case 2 then show ?thesis using fmt_d_chars identity_char_def by blast
    next
      case 3 then show ?thesis using hyph by simp
    next
      case 4 then show ?thesis using m by blast
    next
      case 5 then show ?thesis using decimal_digits [of "uint (hashStrings [cl, g, v])" d] identity_char_def by auto
    qed
    with d hyph show "identity_char c" by auto
  qed
qed

theorem clusterName_sanitized_witness:
  "list_all (\<lambda>c. identity_char c \<or> validClusterName c) ''Standard_D4s.v3'' \<and>
   list_all identity_char (clusterName 2020 ''Standard_D4s.v3'' ''azure'' [] ''2021'') \<and>
   CHR ''D'' \<in> set (clusterName 2020 ''Standard_D4s.v3'' ''azure'' [] ''2021'')"
  using clusterName_sanitized [THEN conjunct2, of 2020 "''Standard_D4s.v3''" "''azure''" "[]" "''2021''"]
  by (simp add: list_all_iff identity_char_def is_letter_def is_digit_def validClusterName_def)

text \<open>
  The claim as stated fails: a slash in the machine type is outside the allowed set and
  stays in the cluster name.
\<close>

theorem clusterName_counterexample:
  "CHR ''/'' \<in> set (clusterName 2020 ''c5d/4xlarge'' ''aws'' [] ''2021'') \<and> \<not> identity_char CHR ''/''"
  by (simp add: clusterName_def set_ReplaceAllString validClusterName_def identity_char_def
      is_letter_def is_digit_def)

subsection \<open>The rendered deployment arguments\<close>














subsection \<open>Failures of the template evaluation\<close>

lemma evalArgs_loop_frame:
  "evalArgs_loop eng inp td (Some a) h = (r, h') \<Longrightarrow>
     next_free h' = next_free h \<and> (\<forall>b. b \<noteq> a \<longrightarrow> cells h' b = cells h b)"
proof (induction inp arbitrary: h)
  case Nil
  then show ?case by simp
next
  case (Cons x inp)
  obtain arg val where x: "x = (arg, val)" by (cases x)
  show ?case
  proof (cases "tmpl_parse eng val")
    case (Some perr)
    with Cons.prems x show ?thesis by simp
  next
    case None
    show ?thesis
    proof (cases "tmpl_exec eng val td (entries h (BenchArgs td))")
      case (Inl err)
      with Cons.prems x None show ?thesis by simp
    next
      case (Inr out)
      let ?h1 = "h\<lparr>cells := (cells h)(a := AList.update arg out (cells h a))\<rparr>"
      from Cons.prems x None Inr have "evalArgs_loop eng inp td (Some a) ?h1 = (r, h')" by simp
      from Cons.IH [OF this] show ?thesis by simp
    qed
  qed
qed

lemma evalArgs_loop_fails:
  assumes "\<forall>(arg, val) \<in> set inp. tmpl_parse eng val = None"
    and "BenchArgs td \<noteq> Some a"
    and "\<exists>(arg, val) \<in> set inp. isl (tmpl_exec eng val td (entries h (BenchArgs td)))"
  shows "\<exists>arg val err. (arg, val) \<in> set inp \<and>
           tmpl_exec eng val td (entries h (BenchArgs td)) = Inl err \<and>
           fst (evalArgs_loop eng inp td (Some a) h) =
             Returned (Some (''error evaluating arg '' @ arg @ '': '' @ err))"
  using assms
proof (induction inp arbitrary: h)
  case Nil
  then show ?case by simp
next
  case (Cons x inp)
  obtain arg val where x: "x = (arg, val)" by (cases x)
  from Cons.prems(1) x have p: "tmpl_parse eng val = None" by simp
  show ?case
  proof (cases "tmpl_exec eng val td (entries h (BenchArgs td))")
    case (Inl err)
    with x p show ?thesis by auto
  next
    case (Inr out)
    let ?h1 = "h\<lparr>cells := (cells h)(a := AList.update arg out (cells h a))\<rparr>"
    from Cons.prems(2) have same: "entries ?h1 (BenchArgs td) = entries h (BenchArgs td)"
      by (cases "BenchArgs td") (auto simp: entries_def)
    from Cons.prems(3) x Inr
    have "\<exists>(arg, val) \<in> set inp. isl (tmpl_exec eng val td (entries ?h1 (BenchArgs td)))"
      unfolding same by auto
    from Cons.IH [OF _ Cons.prems(2) this] Cons.prems(1)
    obtain arg' val' err where "(arg', val') \<in> set inp"
      "tmpl_exec eng val' td (entries ?h1 (BenchArgs td)) = Inl err"
      "fst (evalArgs_loop eng inp td (Some a) ?h1) =
         Returned (Some (''error evaluating arg '' @ arg' @ '': '' @ err))"
      by auto
    with x p Inr same show ?thesis
      by (intro exI [of _ arg'] exI [of _ val'] exI [of _ err]) simp
  qed
qed

lemma evalArgs_loop_succeeds:
  assumes "\<forall>(arg, val) \<in> set inp. tmpl_parse eng val = None"
    and "BenchArgs td \<noteq> Some a"
    and "\<forall>(arg, val) \<in> set inp. \<not> isl (tmpl_exec eng val td (entries h (BenchArgs td)))"
  shows "fst (evalArgs_loop eng inp td (Some a) h) = Returned None \<and>
         keys (snd (evalArgs_loop eng inp td (Some a) h)) (Some a) = keys h (Some a) \<union> fst ` set inp"
  using assms
proof (induction inp arbitrary: h)
  case Nil
  then show ?case by simp
next
  case (Cons x inp)
  obtain arg val where x: "x = (arg, val)" by (cases x)
  from Cons.prems(1) x have p: "tmpl_parse eng val = None" by simp
  from Cons.prems(3) x obtain out
    where out: "tmpl_exec eng val td (entries h (BenchArgs td)) = Inr out"
    by (cases "tmpl_exec eng val td (entries h (BenchArgs td))") auto
  let ?h1 = "h\<lparr>cells := (cells h)(a := AList.update arg out (cells h a))\<rparr>"
  from Cons.prems(2) have same: "entries ?h1 (BenchArgs td) = entries h (BenchArgs td)"
    by (cases "BenchArgs td") (auto simp: entries_def)
  from Cons.prems(3)
  have "\<forall>(arg, val) \<in> set inp. \<not> isl (tmpl_exec eng val td (entries ?h1 (BenchArgs td)))"
    unfolding same by auto
  from Cons.IH [OF _ Cons.prems(2) this] Cons.prems(1)
  have IH: "fst (evalArgs_loop eng inp td (Some a) ?h1) = Returned None"
    "keys (snd (evalArgs_loop eng inp td (Some a) ?h1)) (Some a) = keys ?h1 (Some a) \<union> fst ` set inp"
    by auto
  have k1: "keys ?h1 (Some a) = insert arg (keys h (Some a))"
    by (simp add: keys_def entries_def dom_update)
  from IH k1 x p out show ?case by auto
qed

text \<open>
  Claim C6, as amended. When every value of the merged map parses: if the execution of
  some value fails, \<^verbatim>\<open>evalArgs\<close> returns an error whose message carries the name of an
  argument whose execution failed; otherwise it returns \<^verbatim>\<open>nil\<close> and every argument of
  the input is a key of the output, none is dropped. (The map of evaluated arguments is
  not the map the templates read.)
\<close>

theorem evalArgs_reports_argument:
  assumes "\<forall>(arg, val) \<in> set (entries h inputArgs). tmpl_parse eng val = None"
    and "BenchArgs td \<noteq> Some a"
  shows "((\<exists>(arg, val) \<in> set (entries h inputArgs).
             isl (tmpl_exec eng val td (entries h (BenchArgs td)))) \<longrightarrow>
          (\<exists>arg val err. (arg, val) \<in> set (entries h inputArgs) \<and>
             tmpl_exec eng val td (entries h (BenchArgs td)) = Inl err \<and>
             fst (evalArgs eng h inputArgs td (Some a)) =
               Returned (Some (''error evaluating arg '' @ arg @ '': '' @ err)) \<and>
             sublist arg (''error evaluating arg '' @ arg @ '': '' @ err))) \<and>
         ((\<forall>(arg, val) \<in> set (entries h inputArgs).
             \<not> isl (tmpl_exec eng val td (entries h (BenchArgs td)))) \<longrightarrow>
          fst (evalArgs eng h inputArgs td (Some a)) = Returned None \<and>
          keys (snd (evalArgs eng h inputArgs td (Some a))) (Some a) =
            keys h (Some a) \<union> keys h inputArgs)"
proof (intro conjI impI)
  assume "\<exists>(arg, val) \<in> set (entries h inputArgs).
             isl (tmpl_exec eng val td (entries h (BenchArgs td)))"
  from evalArgs_loop_fails [OF assms this]
  show "\<exists>arg val err. (arg, val) \<in> set (entries h inputArgs) \<and>
             tmpl_exec eng val td (entries h (BenchArgs td)) = Inl err \<and>
             fst (evalArgs eng h inputArgs td (Some a)) =
               Returned (Some (''error evaluating arg '' @ arg @ '': '' @ err)) \<and>
             sublist arg (''error evaluating arg '' @ arg @ '': '' @ err)"
    unfolding evalArgs_def by (metis sublist_appendI)
next
  assume ok: "\<forall>(arg, val) \<in> set (entries h inputArgs).
             \<not> isl (tmpl_exec eng val td (entries h (BenchArgs td)))"
  from evalArgs_loop_succeeds [OF assms ok]
  show "fst (evalArgs eng h inputArgs td (Some a)) = Returned None"
    and "keys (snd (evalArgs eng h inputArgs td (Some a))) (Some a) =
            keys h (Some a) \<union> keys h inputArgs"
    unfolding evalArgs_def keys_def by auto
qed

theorem evalArgs_reports_argument_witness:
  "list_all (\<lambda>(arg, val). tmpl_parse example_engine val = None) (entries example_heap (Some 3)) \<and>
   list_all (\<lambda>(arg, val). tmpl_parse example_engine val = None) (entries example_heap (Some 1)) \<and>
   BenchArgs example_data \<noteq> Some 4 \<and>
   fst (evalArgs example_engine example_heap (Some 3) example_data (Some 4)) =
     Returned (Some (''error evaluating arg gce-zones: template: arg:1:2: executing arg at <.Nope>: can't evaluate field Nope in type cmd.scriptData'')) \<and>
   fst (evalArgs example_engine example_heap (Some 1) example_data (Some 4)) = Returned None \<and>
   keys (snd (evalArgs example_engine example_heap (Some 1) example_data (Some 4))) (Some 4) =
     {''gce-zones'', ''local-ssd''}"
  using evalArgs_reports_argument [of example_heap "Some 3" example_engine example_data 4]
    evalArgs_reports_argument [of example_heap "Some 1" example_engine example_data 4]
  by (simp add: example_engine_def example_heap_def example_data_def entries_def keys_def
      evalArgs_def)

text \<open>
  The claim as stated fails for a value that does not parse: \<^verbatim>\<open>template.Must\<close> panics
  with the message of the parser, which does not name the argument, and no error is
  returned.
\<close>

theorem evalArgs_parse_failure_counterexample:
  "evalArgs example_engine example_heap (Some 2) example_data (Some 4) =
     (Panicked ''template: arg:1: unclosed action'', example_heap) \<and>
   \<not> sublist ''gce-zones'' ''template: arg:1: unclosed action''"
  by (simp add: example_engine_def example_heap_def example_data_def entries_def evalArgs_def
      sublist_Cons_right)

subsection \<open>The maps of the cloud are read only\<close>

lemma combineArgs_frame:
  "combineArgs h m b = (r, h') \<Longrightarrow>
     next_free h' = next_free h \<and> r = (if m = None then b else m) \<and>
     (\<forall>a. Some a \<noteq> m \<longrightarrow> cells h' a = cells h a)"
  by (cases m) (auto simp: combineArgs_def split: if_splits)

text \<open>
  Claim C10, as amended. Let the maps of the configuration be allocated, and no map of
  the machine type be a map of the cloud. Processing the machine type leaves the two
  maps of the cloud as they were, and every allocated map other than the two of this
  machine type as well, so that no other target sees a change. The merged benchmark
  arguments are the machine's own map, updated in place, when it has one, and the map
  of the cloud itself, shared and not copied, when it has none.
\<close>

theorem machineScriptData_frame:
  assumes alloc: "\<forall>a. Some a \<in> {cBenchArgs cloud, cRoachprodArgs cloud, mBenchArgs mc, mRoachprodArgs mc}
            \<longrightarrow> a < next_free h"
    and sep: "\<forall>a. Some a \<in> {mBenchArgs mc, mRoachprodArgs mc}
            \<longrightarrow> Some a \<notin> {cBenchArgs cloud, cRoachprodArgs cloud}"
    and run: "machineScriptData st eng cloud machineType mc h = (res, h')"
  shows "entries h' (cBenchArgs cloud) = entries h (cBenchArgs cloud) \<and>
         entries h' (cRoachprodArgs cloud) = entries h (cRoachprodArgs cloud) \<and>
         (\<forall>a < next_free h. Some a \<noteq> mBenchArgs mc \<longrightarrow> Some a \<noteq> mRoachprodArgs mc \<longrightarrow>
            cells h' a = cells h a) \<and>
         (\<forall>td. res = Returned (Inr td) \<longrightarrow>
            BenchArgs td = (if mBenchArgs mc = None then cBenchArgs cloud else mBenchArgs mc))"
proof -
  obtain benchArgs h1 where c1: "combineArgs h (mBenchArgs mc) (cBenchArgs cloud) = (benchArgs, h1)"
    by (cases "combineArgs h (mBenchArgs mc) (cBenchArgs cloud)")
  obtain ev h2 where mk: "make_map h1 = (ev, h2)" by (cases "make_map h1")
  obtain combined h3 where c2: "combineArgs h2 (mRoachprodArgs mc) (cRoachprodArgs cloud) = (combined, h3)"
    by (cases "combineArgs h2 (mRoachprodArgs mc) (cRoachprodArgs cloud)")
  let ?td = "\<lparr>Details = cloud,
      Cluster = clusterName (year st) machineType (Cloud cloud) (Group cloud) (reportVersion st),
      Lifetime = lifetime st, MachineType = machineType, ScriptsDir = scriptsDir st,
      EvaledArgs = [], BenchArgs = benchArgs\<rparr>"
  obtain er h4 where ea: "evalArgs eng h3 combined ?td (Some ev) = (er, h4)"
    by (cases "evalArgs eng h3 combined ?td (Some ev)")
  from run c1 mk c2 ea have h': "h' = h4"
    by (auto simp: machineScriptData_def Let_def split: outcome.splits option.splits)
  from run c1 mk c2 ea have res: "\<forall>td. res = Returned (Inr td) \<longrightarrow> BenchArgs td = benchArgs"
    by (auto simp: machineScriptData_def Let_def split: outcome.splits option.splits)
  note f1 = combineArgs_frame [OF c1]
  from mk have ev: "ev = next_free h1" and f2: "\<forall>a. a \<noteq> ev \<longrightarrow> cells h2 a = cells h1 a"
    by (auto simp: make_map_def)
  note f3 = combineArgs_frame [OF c2]
  from ea have f4: "\<forall>b. b \<noteq> ev \<longrightarrow> cells h4 b = cells h3 b"
    unfolding evalArgs_def using evalArgs_loop_frame by blast
  have frame: "cells h' a = cells h a"
    if "a < next_free h" "Some a \<noteq> mBenchArgs mc" "Some a \<noteq> mRoachprodArgs mc" for a
  proof -
    from that f1 ev have "a \<noteq> ev" by simp
    with f4 h' have "cells h' a = cells h3 a" by simp
    also from f3 that have "\<dots> = cells h2 a" by simp
    also from f2 \<open>a \<noteq> ev\<close> have "\<dots> = cells h1 a" by simp
    also from f1 that have "\<dots> = cells h a" by simp
    finally show ?thesis .
  qed
  have cloud_maps: "entries h' r = entries h r" if "r \<in> {cBenchArgs cloud, cRoachprodArgs cloud}" for r
  proof (cases r)
    case None
    then show ?thesis by (simp add: entries_def)
  next
    case (Some a)
    with that alloc have "a < next_free h" by auto
    moreover from Some that sep have "Some a \<noteq> mBenchArgs mc" "Some a \<noteq> mRoachprodArgs mc" by auto
    ultimately show ?thesis using frame Some by (simp add: entries_def)
  qed
  from cloud_maps frame res f1 show ?thesis by auto
qed

theorem machineScriptData_frame_witness:
  "entries (snd (machineScriptData example_settings example_engine example_cloud
      ''n2-standard-16'' \<lparr>mBenchArgs = Some 2, mRoachprodArgs = None\<rparr> example_heap)) (Some 0)
     = [(''tpcc'', ''-W 1000'')] \<and>
   entries (snd (machineScriptData example_settings example_engine example_cloud
      ''n2-standard-16'' \<lparr>mBenchArgs = Some 2, mRoachprodArgs = None\<rparr> example_heap)) (Some 1)
     = [(''gce-zones'', ''us-east4-c''), (''local-ssd'', [])]"
  using machineScriptData_frame [of example_cloud "\<lparr>mBenchArgs = Some 2, mRoachprodArgs = None\<rparr>"
      example_heap example_settings example_engine "''n2-standard-16''"
      "fst (machineScriptData example_settings example_engine example_cloud
      ''n2-standard-16'' \<lparr>mBenchArgs = Some 2, mRoachprodArgs = None\<rparr> example_heap)"
      "snd (machineScriptData example_settings example_engine example_cloud
      ''n2-standard-16'' \<lparr>mBenchArgs = Some 2, mRoachprodArgs = None\<rparr> example_heap)"]
  by (simp add: example_cloud_def example_heap_def entries_def)

text \<open>
  The claim as stated fails where it denies the sharing: for a machine type without
  benchmark arguments of its own, the merged map is the very map of the cloud.
\<close>

theorem merged_map_aliases_cloud_map_counterexample:
  "outcome_BenchArgs (fst (machineScriptData example_settings example_engine example_cloud
      ''n2-standard-16'' \<lparr>mBenchArgs = None, mRoachprodArgs = None\<rparr> example_heap))
     = cBenchArgs example_cloud \<and>
   cBenchArgs example_cloud = Some 0"
  by (simp add: machineScriptData_def combineArgs_def make_map_def evalArgs_def entries_def
      example_cloud_def example_heap_def example_engine_def outcome_BenchArgs_def Let_def)

section \<open>Properties of the escalation controller\<close>

subsection \<open>The loop\<close>

lemma levels_run_append [simp]: "levels_run (xs @ ys) = levels_run xs @ levels_run ys"
  by (simp add: levels_run_def map_filter_def)

lemma levels_run_simps [simp]:
  "levels_run [] = []"
  "levels_run (Workload_run l # tr) = l # levels_run tr"
  "level_of c = None \<Longrightarrow> levels_run (c # tr) = levels_run tr"
  by (simp_all add: levels_run_def map_filter_def)

lemma trap_handler_success [simp]: "success (trap_handler w f) = success f"
  by (simp add: trap_handler_def)

lemma run_cmd_trace: "trace (final (run_cmd w c r)) = trace r @ [c]"
  by (simp add: run_cmd_def final_def Let_def)

lemma run_cmd_Inr: "run_cmd w c r = Inr r' \<Longrightarrow> exit_ok w c \<and> trace r' = trace r @ [c]"
  by (auto simp: run_cmd_def Let_def split: if_splits)

lemma run_cmd_Inl: "run_cmd w c r = Inl r' \<Longrightarrow> \<not> exit_ok w c \<and> trace r' = trace r @ [c]"
  by (auto simp: run_cmd_def Let_def split: if_splits)

lemma ramp_loop_levels:
  "levels_run (trace (final (ramp_loop w ls r))) =
     levels_run (trace r) @ takeWhile (passes w) ls @ take 1 (dropWhile (passes w) ls)"
proof (induction ls arbitrary: r)
  case Nil
  show ?case by (simp add: final_def)
next
  case (Cons l ls)
  show ?case
  proof (cases "run_cmd w (Workload_run l) r")
    case (Inl r')
    from run_cmd_Inl [OF Inl] Inl show ?thesis by (simp add: final_def passes_def)
  next
    case (Inr r')
    note r' = run_cmd_Inr [OF Inr]
    show ?thesis
    proof (cases "tail_awk w (report w l) = ''pass''")
      case True
      with Inr r' Cons.IH [of r'] show ?thesis by (simp add: passes_def)
    next
      case False
      with Inr r' show ?thesis by (simp add: final_def passes_def)
    qed
  qed
qed



lemma ramp_phase_levels:
  "levels_run (trace (final (ramp_phase w fl r))) =
     levels_run (trace (final (ramp_loop w (levels w fl) r)))"
proof (cases "ramp_loop w (levels w fl) r")
  case (Inl r')
  then show ?thesis by (simp add: ramp_phase_def and_then_def final_def)
next
  case (Inr r')
  then show ?thesis by (simp add: ramp_phase_def and_then_def run_cmd_trace) (simp add: final_def)
qed

subsection \<open>Numerals\<close>











subsection \<open>The stop rule\<close>

text \<open>The two comparisons on texts of the three kinds.\<close>

lemma rule_examples:
  "gt_85 w ''86''" "\<not> gt_85 w ''85''" "\<not> gt_85 w ''84''"
  "lt_10000 w ''9000''" "lt_10000 w ''9500''" "\<not> lt_10000 w ''10000''"
  "gt_85 w ''96.6%''" "\<not> gt_85 w ''84.1%''" "\<not> gt_85 w ''100.0%''"
  "lt_10000 w ''318.8''" "lt_10000 w ''9500.0''"
  "\<not> gt_85 w ''85.000000000000001''" "gt_85 w ''85.00000000000001''"
  "gt_85 w ''1e3'' = fst (awk_other w ''1e3'')"
  by (simp_all add: gt_85_def lt_10000_def awk_classify_def sign_of_def is_digit_def
      digits_val_def Let_def)


lemma int_numeral_examples:
  "int_numeral ''2500'' = Some 2500" "int_numeral ''3500'' = Some 3500"
  "int_numeral ''3000'' = Some 3000" "int_numeral ''250'' = Some 250"
  "int_numeral ''4000'' = Some 4000" "int_numeral ''0'' = Some 0" "int_numeral ''00'' = Some 0"
  by (simp_all add: int_numeral_def is_digits_def is_digit_def digits_val_def)

lemma fmt_d_examples:
  "fmt_d 0 = ''0''" "fmt_d 2500 = ''2500''" "fmt_d 2750 = ''2750''" "fmt_d 3000 = ''3000''"
  "fmt_d 3250 = ''3250''" "fmt_d 3500 = ''3500''" "fmt_d 86 = ''86''" "fmt_d 9000 = ''9000''"
  by (simp_all add: fmt_d_def decimal.simps digit_char_def)



subsection \<open>The success marker\<close>

lemma levels_default:
  "levels w default_flags = [''2500'', ''2750'', ''3000'', ''3250'', ''3500'']"
  by (simp add: levels_def default_flags_def seq_def int_numeral_examples seq_up.simps
      fmt_d_examples)

lemma levels_zero_inc: "levels w (default_flags\<lparr>f_inc := ''0''\<rparr>) = [''2500'']"
  by (simp add: levels_def default_flags_def seq_def int_numeral_examples seq_up.simps
      fmt_d_examples)

lemma default_flags_sel:
  "f_force default_flags = False" "f_wait default_flags = False"
  "f_skip_load default_flags = False" "f_active default_flags = ''2500''"
  "f_warehouses default_flags = ''3500''" "f_inc default_flags = ''250''"
  by (simp_all add: default_flags_def)





subsection \<open>The increment zero\<close>

text \<open>
  Claim C4, as amended. When the text of the increment is \<^verbatim>\<open>0\<close> and the starting level
  and the number of warehouses are the texts of integers, the starting level positive
  and not above the number of warehouses (and this within the range where \<^verbatim>\<open>seq\<close> is
  exact), the loop has exactly one level, and it is the starting level; the number of
  warehouses is only the increment handed to \<^verbatim>\<open>seq\<close> and the \<^verbatim>\<open>--warehouses\<close> of the run.
\<close>

theorem zero_increment_one_level:
  assumes "f_inc fl = ''0''"
    and "int_numeral (f_active fl) = Some a" and "int_numeral (f_warehouses fl) = Some m"
    and "0 < a" and "a \<le> m" and "m \<le> 4503599627370496"
  shows "levels w fl = [fmt_d a] \<and>
         levels_run (trace (final (ramp_phase w fl r))) = levels_run (trace r) @ [fmt_d a]"
proof -
  from assms have "seq_up a m m = [a]"
    by (simp add: seq_up.simps [of a] seq_up.simps [of "a + m"])
  with assms have "levels w fl = [fmt_d a]"
    by (simp add: levels_def seq_def)
  moreover have "levels_run (trace (final (ramp_phase w fl r))) =
      levels_run (trace r) @ takeWhile (passes w) (levels w fl)
        @ take 1 (dropWhile (passes w) (levels w fl))"
    by (simp only: ramp_phase_levels ramp_loop_levels)
  ultimately show ?thesis by simp
qed

theorem zero_increment_one_level_witness:
  "f_inc (default_flags\<lparr>f_inc := ''0''\<rparr>) = ''0'' \<and>
   int_numeral (f_active (default_flags\<lparr>f_inc := ''0''\<rparr>)) = Some 2500 \<and>
   int_numeral (f_warehouses (default_flags\<lparr>f_inc := ''0''\<rparr>)) = Some 3500 \<and>
   levels calm (default_flags\<lparr>f_inc := ''0''\<rparr>) = [''2500''] \<and>
   levels_run (trace (final (ramp_phase calm (default_flags\<lparr>f_inc := ''0''\<rparr>)
      \<lparr>fs = \<lparr>pidfile = True, success = False\<rparr>, trace = []\<rparr>))) = [''2500'']"
  using zero_increment_one_level [of "default_flags\<lparr>f_inc := ''0''\<rparr>" 2500 3500 calm
      "\<lparr>fs = \<lparr>pidfile = True, success = False\<rparr>, trace = []\<rparr>"]
  by (simp add: default_flags_sel int_numeral_examples fmt_d_examples)

text \<open>
  The claim as stated fails: with the defaults and the increment zero the one level run
  is 2500, not the maximum 3500. A starting level above the maximum gives no level at
  all, the starting level zero gives two, and an increment that is zero but written
  \<^verbatim>\<open>00\<close> is not replaced, is rejected by \<^verbatim>\<open>seq\<close> and gives no level either.
\<close>

theorem zero_increment_counterexample:
  "levels_run (trace (snd (tpcc_sh calm (default_flags\<lparr>f_inc := ''0''\<rparr>) [''postgres://n1:26257'']
      \<lparr>pidfile = False, success = False\<rparr>))) = [''2500''] \<and>
   f_warehouses (default_flags\<lparr>f_inc := ''0''\<rparr>) = ''3500'' \<and>
   levels calm (default_flags\<lparr>f_active := ''4000'', f_inc := ''0''\<rparr>) = [] \<and>
   levels calm (default_flags\<lparr>f_active := ''0'', f_inc := ''0''\<rparr>) = [''0'', ''3500''] \<and>
   levels calm (default_flags\<lparr>f_inc := ''00''\<rparr>) = []"
proof -
  have w: "exit_ok calm = (\<lambda>c. True)" "sigint calm = (\<lambda>c. False)"
    by (simp_all add: calm_def)
  have rep: "tail_awk calm (report calm l) = ''pass''" for l
    by (simp add: calm_def tail_awk_def awk_field_def rule_examples)
  have "levels_run (trace (snd (tpcc_sh calm (default_flags\<lparr>f_inc := ''0''\<rparr>)
      [''postgres://n1:26257''] \<lparr>pidfile = False, success = False\<rparr>))) = [''2500'']"
    by (simp add: tpcc_sh_def guarded_section_def load_stage_def ramp_phase_def and_then_def
        run_cmd_def Let_def w rep levels_zero_inc default_flags_sel)
  moreover have "levels calm (default_flags\<lparr>f_active := ''4000'', f_inc := ''0''\<rparr>) = []"
    "levels calm (default_flags\<lparr>f_active := ''0'', f_inc := ''0''\<rparr>) = [''0'', ''3500'']"
    "levels calm (default_flags\<lparr>f_inc := ''00''\<rparr>) = []"
    by (simp_all add: levels_def default_flags_def seq_def int_numeral_examples seq_up.simps
        fmt_d_examples)
  ultimately show ?thesis by (simp add: default_flags_sel)
qed

subsection \<open>The pid file\<close>

text \<open>
  When the path of the pid file is one word of the shell, the handler removes the file
  at every exit past the guard.
\<close>

lemma pidfile_removed_one_word:
  assumes "list_all word_char (pidfile_path w)"
    and "\<not> f_wait fl" and "pidfile f0 \<longrightarrow> f_force fl" and "pgurls \<noteq> []"
  shows "\<not> pidfile (fs (snd (tpcc_sh w fl pgurls f0)))"
  using assms
  by (cases "guarded_section w fl \<lparr>fs = f0, trace = []\<rparr>")
    (auto simp: tpcc_sh_def trap_handler_def)

text \<open>
  Claim C8. The claim holds of the script only while the path of the pid file is one
  word of the shell. With a space in \<^verbatim>\<open>HOME\<close> the handler, whose text carries the path
  without quotes, removes other words, and a run that passes the guard, writes the pid
  file and goes through to the end leaves the pid file behind; so does a run that a
  failing, interrupted command ends.
\<close>

theorem pidfile_survives_spaced_home:
  "tpcc_sh spaced_home_world default_flags [''postgres://n1:26257'']
      \<lparr>pidfile = False, success = False\<rparr> =
     (Completed,
      \<lparr>fs = \<lparr>pidfile = True, success = True\<rparr>,
       trace = [Write_pidfile, Rm_logdir, Mkdir_logdir, Cd_home, Sql_settings, Fixtures_import,
                Workload_run ''2500'', Workload_run ''2750'', Workload_run ''3000'',
                Workload_run ''3250'', Workload_run ''3500'', Touch_success]\<rparr>) \<and>
   fst (tpcc_sh (spaced_home_world\<lparr>exit_ok := (\<lambda>c. c \<noteq> Workload_run ''2750''),
                                   sigint := (\<lambda>c. c = Workload_run ''2750'')\<rparr>)
         default_flags [''postgres://n1:26257''] \<lparr>pidfile = False, success = False\<rparr>) = Aborted \<and>
   pidfile (fs (snd (tpcc_sh (spaced_home_world\<lparr>exit_ok := (\<lambda>c. c \<noteq> Workload_run ''2750''),
                                   sigint := (\<lambda>c. c = Workload_run ''2750'')\<rparr>)
         default_flags [''postgres://n1:26257''] \<lparr>pidfile = False, success = False\<rparr>)))"
proof -
  have p: "pidfile_path (spaced_home_world\<lparr>exit_ok := e, sigint := s\<rparr>)
             = ''/home/cloud report/tpcc-bench.pid''" for e s
    by (simp add: spaced_home_world_def calm_def pidfile_path_def)
  have t: "trap_handler (spaced_home_world\<lparr>exit_ok := e, sigint := s\<rparr>) f = f" for e s f
    by (simp add: trap_handler_def p word_char_def blank_def)
  have t0: "trap_handler spaced_home_world f = f" for f
    by (simp add: trap_handler_def spaced_home_world_def calm_def pidfile_path_def
        word_char_def blank_def)
  have w: "exit_ok spaced_home_world = (\<lambda>c. True)" "sigint spaced_home_world = (\<lambda>c. False)"
    by (simp_all add: spaced_home_world_def calm_def)
  have rep0: "tail_awk v (report spaced_home_world l) = ''pass''" for v l
    by (simp add: spaced_home_world_def calm_def tail_awk_def awk_field_def rule_examples)
  have 1: "tpcc_sh spaced_home_world default_flags [''postgres://n1:26257'']
      \<lparr>pidfile = False, success = False\<rparr> =
     (Completed,
      \<lparr>fs = \<lparr>pidfile = True, success = True\<rparr>,
       trace = [Write_pidfile, Rm_logdir, Mkdir_logdir, Cd_home, Sql_settings, Fixtures_import,
                Workload_run ''2500'', Workload_run ''2750'', Workload_run ''3000'',
                Workload_run ''3250'', Workload_run ''3500'', Touch_success]\<rparr>)"
    by (simp add: tpcc_sh_def guarded_section_def load_stage_def ramp_phase_def and_then_def
        run_cmd_def Let_def w t0 rep0 levels_default default_flags_sel)
  have 2: "tpcc_sh (spaced_home_world\<lparr>exit_ok := (\<lambda>c. c \<noteq> Workload_run ''2750''),
                                   sigint := (\<lambda>c. c = Workload_run ''2750'')\<rparr>)
         default_flags [''postgres://n1:26257''] \<lparr>pidfile = False, success = False\<rparr> =
     (Aborted,
      \<lparr>fs = \<lparr>pidfile = True, success = False\<rparr>,
       trace = [Write_pidfile, Rm_logdir, Mkdir_logdir, Cd_home, Sql_settings, Fixtures_import,
                Workload_run ''2500'', Workload_run ''2750'']\<rparr>)"
    by (simp add: tpcc_sh_def guarded_section_def load_stage_def ramp_phase_def and_then_def
        run_cmd_def Let_def t rep0 levels_default default_flags_sel)
  from 1 2 show ?thesis by simp
qed

section \<open>Properties of the driver script\<close>

lemma bootstrap_neutral:
  "\<forall>c \<in> set (final (bootstrap ok fl)). \<not> is_start c \<and> \<not> is_fetch c"
  by (auto simp: bootstrap_def when_set_def create_cluster_def upload_scripts_def
      setup_cluster_def and_then_def issue_def final_def split: if_splits sum.splits)

lemma bootstrap_ok: "\<forall>n c. ok n c \<Longrightarrow> isl (bootstrap ok fl) = False"
  by (simp add: bootstrap_def when_set_def create_cluster_def upload_scripts_def
      setup_cluster_def and_then_def issue_def)

lemma fetch_results_cases:
  "fetch_results ok b tr = Inl (tr @ [Wait_for b]) \<or>
   fetch_results ok b tr = Inl (tr @ [Wait_for b, Get_results b]) \<or>
   fetch_results ok b tr = Inr (tr @ [Wait_for b, Get_results b])"
  by (simp add: fetch_results_def and_then_def issue_def)

lemma fetch_loop:
  "\<exists>ys. final (for_each (fetch_results ok) bs tr) = tr @ ys \<and>
        prefix ys (concat (map (\<lambda>b. [Wait_for b, Get_results b]) bs)) \<and>
        (\<not> isl (for_each (fetch_results ok) bs tr) \<longrightarrow>
           ys = concat (map (\<lambda>b. [Wait_for b, Get_results b]) bs))"
proof (induction bs arbitrary: tr)
  case Nil
  show ?case by (simp add: final_def)
next
  case (Cons b bs)
  from fetch_results_cases [of ok b tr] consider
      "fetch_results ok b tr = Inl (tr @ [Wait_for b])"
    | "fetch_results ok b tr = Inl (tr @ [Wait_for b, Get_results b])"
    | "fetch_results ok b tr = Inr (tr @ [Wait_for b, Get_results b])" by blast
  then show ?case
  proof cases
    case 1
    then show ?thesis by (simp add: and_then_def final_def)
  next
    case 2
    then show ?thesis by (simp add: and_then_def final_def)
  next
    case 3
    from Cons.IH [of "tr @ [Wait_for b, Get_results b]"] obtain ys
      where "final (for_each (fetch_results ok) bs (tr @ [Wait_for b, Get_results b]))
               = (tr @ [Wait_for b, Get_results b]) @ ys"
        and "prefix ys (concat (map (\<lambda>b. [Wait_for b, Get_results b]) bs))"
        and "\<not> isl (for_each (fetch_results ok) bs (tr @ [Wait_for b, Get_results b])) \<longrightarrow>
           ys = concat (map (\<lambda>b. [Wait_for b, Get_results b]) bs)" by blast
    with 3 show ?thesis
      by (intro exI [where x = "[Wait_for b, Get_results b] @ ys"]) (simp add: and_then_def)
  qed
qed

lemma fetch_loop_ok:
  "\<forall>n c. ok n c \<Longrightarrow> isl (for_each (fetch_results ok) bs tr) = False"
  by (induction bs arbitrary: tr) (simp_all add: fetch_results_def and_then_def issue_def)

lemma destroy_final:
  "final (when_set b (destroy_cluster ok) tr) = tr @ (if b then [Destroy] else [])"
  by (simp add: when_set_def destroy_cluster_def issue_def final_def)

lemma fetch_pairs: "prefix ys (concat (map (\<lambda>b. [Wait_for b, Get_results b]) bs)) \<Longrightarrow>
  (\<forall>c \<in> set ys. \<not> is_start c) \<and> filter is_fetch ys = ys"
proof -
  assume "prefix ys (concat (map (\<lambda>b. [Wait_for b, Get_results b]) bs))"
  then have "set ys \<subseteq> set (concat (map (\<lambda>b. [Wait_for b, Get_results b]) bs))"
    by (rule set_mono_prefix)
  then have "\<forall>c \<in> set ys. \<not> is_start c \<and> is_fetch c" by auto
  then show ?thesis by (simp add: filter_id_conv)
qed

lemma resume_shape:
  assumes "f_resume fl"
  shows "\<exists>pre ys zs. driver ok fl = pre @ ys @ zs \<and>
           (\<forall>c \<in> set pre. \<not> is_start c \<and> \<not> is_fetch c) \<and>
           prefix ys (concat (map (\<lambda>b. [Wait_for b, Get_results b]) (benchmarks fl))) \<and>
           (\<forall>c \<in> set zs. \<not> is_start c \<and> \<not> is_fetch c) \<and>
           ((\<forall>n c. ok n c) \<longrightarrow> ys = concat (map (\<lambda>b. [Wait_for b, Get_results b]) (benchmarks fl)))"
proof (cases "bootstrap ok fl")
  case (Inl r)
  with bootstrap_neutral [of ok fl] bootstrap_ok [of ok fl] assms show ?thesis
    apply -
    apply (rule exI [where x = r], rule exI [where x = "[]"], rule exI [where x = "[]"])
    apply (auto simp: driver_def and_then_def final_def)
    done
next
  case (Inr r)
  with bootstrap_neutral [of ok fl] have r: "\<forall>c \<in> set r. \<not> is_start c \<and> \<not> is_fetch c"
    by (simp add: final_def)
  from fetch_loop [of ok "benchmarks fl" r] obtain ys
    where ys: "final (for_each (fetch_results ok) (benchmarks fl) r) = r @ ys"
      "prefix ys (concat (map (\<lambda>b. [Wait_for b, Get_results b]) (benchmarks fl)))"
      "\<not> isl (for_each (fetch_results ok) (benchmarks fl) r) \<longrightarrow>
           ys = concat (map (\<lambda>b. [Wait_for b, Get_results b]) (benchmarks fl))" by blast
  show ?thesis
  proof (cases "for_each (fetch_results ok) (benchmarks fl) r")
    case (Inl r')
    with ys have "r' = r @ ys" by (simp add: final_def)
    with Inl Inr assms have "driver ok fl = r @ ys @ []"
      by (simp add: driver_def and_then_def final_def when_set_def)
    moreover from Inl fetch_loop_ok [of ok "benchmarks fl" r] have "\<not> (\<forall>n c. ok n c)" by auto
    ultimately show ?thesis using r ys(2)
      apply -
      apply (rule exI [where x = r], rule exI [where x = ys], rule exI [where x = "[]"])
      apply auto
      done
  next
    case (Inr r')
    with ys have r': "r' = r @ ys" "ys = concat (map (\<lambda>b. [Wait_for b, Get_results b]) (benchmarks fl))"
      by (simp_all add: final_def)
    from Inr \<open>bootstrap ok fl = Inr r\<close> assms
    have "driver ok fl = final (when_set (do_destroy fl) (destroy_cluster ok) r')"
      by (simp add: driver_def and_then_def when_set_def)
    with r' have "driver ok fl = r @ ys @ (if do_destroy fl then [Destroy] else [])"
      by (simp add: destroy_final)
    with r r' ys(2) show ?thesis
      apply -
      apply (rule exI [where x = r], rule exI [where x = ys],
          rule exI [where x = "if do_destroy fl then [Destroy] else []"])
      apply simp
      done
  qed
qed

text \<open>
  Claim C7. In resume mode no command that starts a benchmark is issued. The commands
  that wait for a benchmark and fetch its results are issued pair by pair in the order
  of the requests: what is issued of them is always an initial part of the sequence of
  the pairs of all requested benchmarks, and it is the whole sequence when no command
  fails (under \<^verbatim>\<open>set -e\<close> the first failing command ends the script).
\<close>

theorem resume_mode:
  assumes "f_resume fl"
  shows "(\<forall>c \<in> set (driver ok fl). \<not> is_start c) \<and>
         prefix (filter is_fetch (driver ok fl))
           (concat (map (\<lambda>b. [Wait_for b, Get_results b]) (benchmarks fl))) \<and>
         ((\<forall>n c. ok n c) \<longrightarrow>
            filter is_fetch (driver ok fl) =
              concat (map (\<lambda>b. [Wait_for b, Get_results b]) (benchmarks fl)))"
proof -
  from resume_shape [OF assms, of ok] obtain pre ys zs
    where d: "driver ok fl = pre @ ys @ zs"
      and pre: "\<forall>c \<in> set pre. \<not> is_start c \<and> \<not> is_fetch c"
      and ys: "prefix ys (concat (map (\<lambda>b. [Wait_for b, Get_results b]) (benchmarks fl)))"
      and zs: "\<forall>c \<in> set zs. \<not> is_start c \<and> \<not> is_fetch c"
      and ok: "(\<forall>n c. ok n c) \<longrightarrow> ys = concat (map (\<lambda>b. [Wait_for b, Get_results b]) (benchmarks fl))"
    by blast
  from pre have fpre: "filter is_fetch pre = []" by (simp add: filter_empty_conv)
  from zs have fzs: "filter is_fetch zs = []" by (simp add: filter_empty_conv)
  from fetch_pairs [OF ys] have fys: "filter is_fetch ys = ys" and sys: "\<forall>c \<in> set ys. \<not> is_start c"
    by simp_all
  from d fpre fzs fys have f: "filter is_fetch (driver ok fl) = ys" by simp
  from d pre zs sys have "\<forall>c \<in> set (driver ok fl). \<not> is_start c" by auto
  with f ys ok show ?thesis by simp
qed

theorem resume_mode_witness:
  "f_resume resume_flags \<and>
   driver (\<lambda>n c. True) resume_flags =
     [Wait_for bench_cpu, Get_results bench_cpu, Wait_for bench_tpcc, Get_results bench_tpcc,
      Destroy] \<and>
   list_all (\<lambda>c. \<not> is_start c) (driver (\<lambda>n c. True) resume_flags) \<and>
   filter is_fetch (driver (\<lambda>n c. True) resume_flags) =
     [Wait_for bench_cpu, Get_results bench_cpu, Wait_for bench_tpcc, Get_results bench_tpcc]"
  using resume_mode [of resume_flags "\<lambda>n c. True"]
  by (simp add: resume_flags_def driver_def bootstrap_def when_set_def fetch_results_def
      destroy_cluster_def and_then_def issue_def final_def)

end
